theory Spec2Isabelle
  imports Main
begin

section \<open>Python values and the built-ins that main.py relies on\<close>

text \<open>
  The theme data handled by main.py is whatever \<^verbatim>\<open>json.loads\<close> returns: \<^verbatim>\<open>None\<close>, a bool, an
  int, a str, a list or a dict with string keys. A dict keeps its insertion order and has
  pairwise distinct keys, so it is an association list here. JSON numbers with a fraction
  or an exponent (Python floats) are not part of this model. Strings are lists of
  characters; a character stands for the code point of the same number (0 to 255).
\<close>

datatype jvalue =
    JNull
  | JBool bool
  | JInt int
  | JStr string
  | JArr "jvalue list"
  | JObj "(string \<times> jvalue) list"

type_synonym pydict = "(string \<times> jvalue) list"

datatype py_error = AttributeError | EOFError | SystemExit int

text \<open>Truth value of a Python object, as \<^verbatim>\<open>if not hex_code\<close> and \<^verbatim>\<open>if theme_data\<close> test it.\<close>

fun py_truthy :: "jvalue \<Rightarrow> bool" where
  "py_truthy JNull = False"
| "py_truthy (JBool b) = b"
| "py_truthy (JInt n) = (n \<noteq> 0)"
| "py_truthy (JStr s) = (s \<noteq> [])"
| "py_truthy (JArr xs) = (xs \<noteq> [])"
| "py_truthy (JObj kvs) = (kvs \<noteq> [])"

text \<open>\<^verbatim>\<open>sep.join(parts)\<close>.\<close>

fun py_join :: "string \<Rightarrow> string list \<Rightarrow> string" where
  "py_join sep [] = []"
| "py_join sep [x] = x"
| "py_join sep (x # y # ys) = x @ sep @ py_join sep (y # ys)"

text \<open>\<^verbatim>\<open>str(i)\<close> for an int: decimal digits, with a minus sign for a negative number.\<close>

definition digit_char :: "nat \<Rightarrow> char" where
  "digit_char n = char_of (48 + n)"

fun str_nat :: "nat \<Rightarrow> string" where
  "str_nat n = (if n < 10 then [digit_char n] else str_nat (n div 10) @ [digit_char (n mod 10)])"

declare str_nat.simps [simp del]

definition str_int :: "int \<Rightarrow> string" where
  "str_int i = (if i < 0 then CHR ''-'' # str_nat (nat (- i)) else str_nat (nat i))"

text \<open>
  \<^verbatim>\<open>repr(s)\<close> for a str: quoted with \<^verbatim>\<open>'\<close>, or with \<^verbatim>\<open>"\<close> when the string has a \<^verbatim>\<open>'\<close> and no
  \<^verbatim>\<open>"\<close>; backslash, the quote, tab, newline and carriage return escaped, every other
  non-printable code point written \<^verbatim>\<open>\xNN\<close>.
\<close>

definition hex_digit :: "nat \<Rightarrow> char" where
  "hex_digit n = (if n < 10 then char_of (48 + n) else char_of (87 + n))"

definition repr_char :: "char \<Rightarrow> char \<Rightarrow> string" where
  "repr_char q c =
     (let n = (of_char c :: nat) in
      if c = CHR 0x5C then [CHR 0x5C, CHR 0x5C]
      else if c = q then [CHR 0x5C, q]
      else if c = CHR 0x09 then [CHR 0x5C, CHR ''t'']
      else if c = CHR 0x0A then [CHR 0x5C, CHR ''n'']
      else if c = CHR 0x0D then [CHR 0x5C, CHR ''r'']
      else if n < 32 \<or> (127 \<le> n \<and> n \<le> 160) \<or> n = 173
        then [CHR 0x5C, CHR ''x'', hex_digit (n div 16), hex_digit (n mod 16)]
      else [c])"

definition repr_str :: "string \<Rightarrow> string" where
  "repr_str s =
     (let q = (if CHR 0x27 \<in> set s \<and> CHR 0x22 \<notin> set s then CHR 0x22 else CHR 0x27)
      in q # concat (map (repr_char q) s) @ [q])"

fun py_repr :: "jvalue \<Rightarrow> string" where
  "py_repr JNull = ''None''"
| "py_repr (JBool b) = (if b then ''True'' else ''False'')"
| "py_repr (JInt i) = str_int i"
| "py_repr (JStr s) = repr_str s"
| "py_repr (JArr xs) = ''['' @ py_join '', '' (map py_repr xs) @ '']''"
| "py_repr (JObj kvs) =
     ''{'' @ py_join '', '' (map (\<lambda>kv. repr_str (fst kv) @ '': '' @ py_repr (snd kv)) kvs) @ ''}''"

text \<open>
  \<^verbatim>\<open>str(v)\<close>, which is what an f-string field \<^verbatim>\<open>{value}\<close> inserts: a str verbatim, anything
  else as its repr.
\<close>

definition py_str :: "jvalue \<Rightarrow> string" where
  "py_str v = (case v of JStr s \<Rightarrow> s | _ \<Rightarrow> py_repr v)"

text \<open>\<^verbatim>\<open>d.get(key)\<close> (default \<^verbatim>\<open>None\<close>) and \<^verbatim>\<open>d.get(key, default)\<close> on a dict.\<close>

definition dict_get_default :: "pydict \<Rightarrow> string \<Rightarrow> jvalue \<Rightarrow> jvalue" where
  "dict_get_default d k dflt = (case map_of d k of None \<Rightarrow> dflt | Some v \<Rightarrow> v)"

definition dict_get :: "pydict \<Rightarrow> string \<Rightarrow> jvalue" where
  "dict_get d k = dict_get_default d k JNull"

section \<open>The format converter: convert_theme_to_conf\<close>

text \<open>
  \<^verbatim>\<open>
  def convert_theme_to_conf(theme_data):
      lines = []
      palette = theme_data.get("palette", {})
      for i in range(16):
          hex_code = palette.get(str(i))
          if not hex_code:
              print(f"Warning: Palette index {i} missing in generated theme data.")
              continue
          lines.append(f"palette = {i}={hex_code}")
      for key, value in theme_data.items():
          if key == "palette":
              continue  # already handled
          lines.append(f"{key} = {value}")
      return "\n".join(lines) + "\n"
  \<close>
  The function prints warnings and returns a string. The model returns both: the printed
  lines in the order they are printed, and the returned text. A palette that is not a
  dict has no \<^verbatim>\<open>get\<close>: the first iteration raises AttributeError before anything is printed.
\<close>

definition palette_warning :: "nat \<Rightarrow> string" where
  "palette_warning i =
     ''Warning: Palette index '' @ str_nat i @ '' missing in generated theme data.''"

definition palette_line :: "nat \<Rightarrow> jvalue \<Rightarrow> string" where
  "palette_line i hex_code = ''palette = '' @ str_nat i @ ''='' @ py_str hex_code"

definition scalar_line :: "string \<Rightarrow> jvalue \<Rightarrow> string" where
  "scalar_line key v = key @ '' = '' @ py_str v"

text \<open>The first loop, over the indices it is given; it returns (warnings, lines).\<close>

fun palette_loop :: "pydict \<Rightarrow> nat list \<Rightarrow> string list \<times> string list" where
  "palette_loop palette [] = ([], [])"
| "palette_loop palette (i # is) =
     (let hex_code = dict_get palette (str_nat i);
          (ws, ls) = palette_loop palette is
      in if \<not> py_truthy hex_code then (palette_warning i # ws, ls)
         else (ws, palette_line i hex_code # ls))"

text \<open>The second loop, over the items of the document.\<close>

fun items_loop :: "pydict \<Rightarrow> string list" where
  "items_loop [] = []"
| "items_loop ((key, v) # rest) =
     (if key = ''palette'' then items_loop rest else scalar_line key v # items_loop rest)"

definition convert_theme_to_conf :: "pydict \<Rightarrow> py_error + (string list \<times> string)" where
  "convert_theme_to_conf theme_data =
     (case dict_get_default theme_data ''palette'' (JObj []) of
        JObj palette \<Rightarrow>
          (let (ws, ls) = palette_loop palette [0..<16]
           in Inr (ws, py_join [CHR 0x0A] (ls @ items_loop theme_data) @ [CHR 0x0A]))
      | _ \<Rightarrow> Inl AttributeError)"

text \<open>The text ends with a newline that is not preceded by another newline.\<close>

definition one_trailing_newline :: "string \<Rightarrow> bool" where
  "one_trailing_newline t =
     (case rev t of
        [] \<Rightarrow> False
      | c # r \<Rightarrow> c = CHR 0x0A \<and> (case r of [] \<Rightarrow> True | c' # _ \<Rightarrow> c' \<noteq> CHR 0x0A))"

subsection \<open>Example documents\<close>

definition full_palette :: pydict where
  "full_palette =
     [(''0'', JStr ''#111111''), (''1'', JStr ''#ff0000''), (''2'', JStr ''#00ff00''),
      (''3'', JStr ''#ffff00''), (''4'', JStr ''#0000ff''), (''5'', JStr ''#ff00ff''),
      (''6'', JStr ''#00ffff''), (''7'', JStr ''#eeeeee''), (''8'', JStr ''#555555''),
      (''9'', JStr ''#ff5555''), (''10'', JStr ''#55ff55''), (''11'', JStr ''#ffff55''),
      (''12'', JStr ''#5555ff''), (''13'', JStr ''#ff55ff''), (''14'', JStr ''#55ffff''),
      (''15'', JStr ''#ffffff'')]"

definition full_colour :: "nat \<Rightarrow> jvalue" where
  "full_colour i = dict_get full_palette (str_nat i)"

definition full_doc :: pydict where
  "full_doc =
     [(''background'', JStr ''#111111''), (''palette'', JObj full_palette),
      (''foreground'', JStr ''#eeeeee'')]"

definition two_colour_doc :: pydict where
  "two_colour_doc =
     [(''palette'', JObj [(''0'', JStr ''#111111''), (''1'', JStr ''#ff0000'')]),
      (''background'', JStr ''#111111'')]"

definition newline_value_doc :: pydict where
  "newline_value_doc = [(''palette'', JObj full_palette), (''title'', JStr ''demo\<newline>'')]"

section \<open>Strings, paths and the theme-name prompt\<close>

text \<open>
  \<^verbatim>\<open>str.strip()\<close>, \<^verbatim>\<open>str.lower()\<close> and \<^verbatim>\<open>str.isalnum()\<close> on the code points 0 to 255: the
  whitespace characters are 9 to 13, 28 to 32, 133 and 160; the upper-case letters are
  A to Z and 192 to 222 without 215; the alphanumeric characters are the ASCII digits and
  letters and, above 127, the Latin-1 letters, superscript digits and fractions.
\<close>

definition py_isspace :: "char \<Rightarrow> bool" where
  "py_isspace c =
     (let n = (of_char c :: nat) in (9 \<le> n \<and> n \<le> 13) \<or> (28 \<le> n \<and> n \<le> 32) \<or> n = 133 \<or> n = 160)"

definition py_strip :: "string \<Rightarrow> string" where
  "py_strip s = rev (dropWhile py_isspace (rev (dropWhile py_isspace s)))"

definition lower_char :: "char \<Rightarrow> char" where
  "lower_char c =
     (let n = (of_char c :: nat) in
      if (65 \<le> n \<and> n \<le> 90) \<or> (192 \<le> n \<and> n \<le> 222 \<and> n \<noteq> 215) then char_of (n + 32) else c)"

definition py_lower :: "string \<Rightarrow> string" where
  "py_lower s = map lower_char s"

definition py_isalnum :: "char \<Rightarrow> bool" where
  "py_isalnum c =
     (let n = (of_char c :: nat) in
      (48 \<le> n \<and> n \<le> 57) \<or> (65 \<le> n \<and> n \<le> 90) \<or> (97 \<le> n \<and> n \<le> 122) \<or>
      n = 170 \<or> n = 178 \<or> n = 179 \<or> n = 181 \<or> n = 185 \<or> n = 186 \<or>
      (188 \<le> n \<and> n \<le> 190) \<or> (192 \<le> n \<and> n \<le> 214) \<or> (216 \<le> n \<and> n \<le> 246) \<or>
      (248 \<le> n \<and> n \<le> 255))"

text \<open>\<^verbatim>\<open>needle in hay\<close> for two strings.\<close>

fun py_contains :: "string \<Rightarrow> string \<Rightarrow> bool" where
  "py_contains needle [] = (needle = [])"
| "py_contains needle (c # cs) =
     (take (length needle) (c # cs) = needle \<or> py_contains needle cs)"

text \<open>\<^verbatim>\<open>os.path.join(a, b)\<close> on POSIX: an absolute second component replaces the first.\<close>

definition path_join :: "string \<Rightarrow> string \<Rightarrow> string" where
  "path_join a b =
     (if b \<noteq> [] \<and> hd b = CHR ''/'' then b
      else if a = [] \<or> last a = CHR ''/'' then a @ b
      else a @ ''/'' @ b)"

definition apostrophe :: string where
  "apostrophe = [CHR 0x27]"

subsection \<open>Effects\<close>

text \<open>
  What the program does to the outside is recorded, call by call, in a trace: every
  \<^verbatim>\<open>print\<close>, every \<^verbatim>\<open>input\<close> prompt, and every attempt to create a directory, write a file,
  start an external command, create the temporary file or remove a file. The state
  threaded through the functions holds the lines still to be read from standard
  input, the trace so far and the contents of the regular files.
\<close>

datatype event =
    Print string
  | Input string
  | MakeDirs string
  | OpenWrite string string
  | JsonDump string jvalue
  | CallApi string
  | RunCmd "string list"
  | TempFile string
  | Remove string

record world =
  stdin :: "string list"
  trace :: "event list"
  files :: "string \<Rightarrow> string option"

definition emit :: "event \<Rightarrow> world \<Rightarrow> world" where
  "emit e w = w\<lparr>trace := trace w @ [e]\<rparr>"

definition emits :: "event list \<Rightarrow> world \<Rightarrow> world" where
  "emits es w = w\<lparr>trace := trace w @ es\<rparr>"

text \<open>
  An OSError as the handlers of main.py look at it: whether it is an instance of
  PermissionError, its \<^verbatim>\<open>errno\<close>, and its message.
\<close>

datatype os_error = OSError (is_permission_error: bool) (errno: "int option") (message: string)

definition permission_denied :: "os_error \<Rightarrow> bool" where
  "permission_denied e = (is_permission_error e \<or> errno e = Some 13)"

text \<open>
  An exception raised inside the \<^verbatim>\<open>try\<close> block of \<^verbatim>\<open>generate_ghostty_theme_json\<close>, with its
  text: the two handlers tell a \<^verbatim>\<open>json.JSONDecodeError\<close> from any other exception.
\<close>

datatype raised = JSONDecodeError string | OtherException string

text \<open>
  The result of the chat-completion request: an exception, or the content of the first
  choice, which may be \<^verbatim>\<open>None\<close>.
\<close>

datatype api_result = ApiRaised raised | ApiContent "string option"

text \<open>
  The outside world, which the program does not control: the value of the API key in the
  environment, the generation service, the JSON parser and printer of the Python library
  (the parser returns a value or raises, a \<^verbatim>\<open>JSONDecodeError\<close> on text that is not JSON),
  which calls of the operating system fail, the name given to the temporary file, and
  what an external command does to the files and returns (or the error raised when it
  cannot be started).
\<close>

record env =
  getenv_api_key :: "string option"
  env_path :: string
  chat_completion :: "string \<Rightarrow> string \<Rightarrow> api_result"
  json_loads :: "string \<Rightarrow> raised + jvalue"
  json_dumps :: "jvalue \<Rightarrow> string"
  makedirs_error :: "string \<Rightarrow> os_error option"
  open_error :: "string \<Rightarrow> os_error option"
  remove_error :: "string \<Rightarrow> os_error option"
  named_temporary_file :: "os_error + string"
  subprocess_run :: "string list \<Rightarrow> (string \<Rightarrow> string option) \<Rightarrow> (os_error + int) \<times> (string \<Rightarrow> string option)"

subsection \<open>get_theme_name\<close>

text \<open>
  \<^verbatim>\<open>
  def get_theme_name():
      while True:
          theme_name = input("Enter a single-word theme name ...: ").strip().lower()
          if theme_name and not any(c in theme_name for c in
                  [' ', '/', '\\', '.', ':', '*', '?', '"', '<', '>', '|']):
              theme_name = "".join(c if c.isalnum() or c in ['-', '_'] else '_'
                                   for c in theme_name)
              return theme_name
          else:
              print("Invalid theme name. Please enter a single word containing only "
                    "letters, numbers, hyphens, or underscores.")
  \<close>
  The loop reads one line per iteration. On a finite standard input it ends: with the
  first accepted line, or with the EOFError that \<^verbatim>\<open>input\<close> raises when no line is left.
\<close>

definition rejected_chars :: "char list" where
  "rejected_chars =
     [CHR '' '', CHR ''/'', CHR 0x5C, CHR ''.'', CHR '':'', CHR ''*'', CHR ''?'', CHR 0x22,
      CHR ''<'', CHR ''>'', CHR ''|'']"

definition name_check :: "string \<Rightarrow> bool" where
  "name_check theme_name = (theme_name \<noteq> [] \<and> \<not> (\<exists>c \<in> set rejected_chars. c \<in> set theme_name))"

definition sanitize_name :: "string \<Rightarrow> string" where
  "sanitize_name theme_name =
     map (\<lambda>c. if py_isalnum c \<or> c \<in> set [CHR ''-'', CHR ''_''] then c else CHR ''_'') theme_name"

definition theme_prompt :: string where
  "theme_prompt =
     ''Enter a single-word theme name (e.g., '' @ apostrophe @ ''brogrammer'' @ apostrophe @
     '', '' @ apostrophe @ ''dungeon'' @ apostrophe @ '', '' @ apostrophe @ ''vaporwave'' @
     apostrophe @ ''): ''"

definition invalid_name_message :: string where
  "invalid_name_message =
     ''Invalid theme name. Please enter a single word containing only letters, numbers, hyphens, or underscores.''"

fun theme_name_loop :: "string list \<Rightarrow> event list \<times> (py_error + string) \<times> string list" where
  "theme_name_loop [] = ([Input theme_prompt], Inl EOFError, [])"
| "theme_name_loop (line # rest) =
     (let theme_name = py_lower (py_strip line)
      in if name_check theme_name then ([Input theme_prompt], Inr (sanitize_name theme_name), rest)
         else (let (es, r, rest') = theme_name_loop rest
               in (Input theme_prompt # Print invalid_name_message # es, r, rest')))"

definition get_theme_name :: "world \<Rightarrow> (py_error + string) \<times> world" where
  "get_theme_name w =
     (let (es, r, rest) = theme_name_loop (stdin w)
      in (r, (emits es w)\<lparr>stdin := rest\<rparr>))"

section \<open>Generating and saving the theme\<close>

subsection \<open>load_api_key\<close>




subsection \<open>generate_ghostty_theme_json\<close>



subsection \<open>save_theme_to_file\<close>


section \<open>The privileged writer\<close>

text \<open>
  The functions of the writer return nothing. The model returns the return point that
  was reached, under the name the design gives it: \<open>Done\<close> after a successful write or
  move, \<open>Aborted\<close> after the operator declined, \<open>Failed\<close> after the elevated attempt raised,
  and \<open>ErrorReported\<close> after an error of the first attempt that is not a permission error.
\<close>

datatype writer_state = Done | Aborted | Failed | ErrorReported

definition ghostty_themes_dir :: string where
  "ghostty_themes_dir = ''/Applications/Ghostty.app/Contents/Resources/themes''"

definition sudo_ghostty_themes_dir :: string where
  "sudo_ghostty_themes_dir = ''/Applications/Ghostty.app/Contents/Resources/ghostty/themes''"

definition sudo_prompt :: string where
  "sudo_prompt =
     ''It looks like we don'' @ apostrophe @ ''t have permission to write to Ghostty'' @
     apostrophe @ ''s theme directory. Attempt to save using sudo? (y/N): ''"

definition skipping_message :: string where
  "skipping_message =
     ''Skipping sudo attempt. The stripped theme was NOT saved to the Ghostty directory.''"

text \<open>
  \<^verbatim>\<open>os.remove(path)\<close>: FileNotFoundError when there is no such file; otherwise the file is
  removed unless the operating system refuses.
\<close>

definition os_remove :: "env \<Rightarrow> string \<Rightarrow> world \<Rightarrow> os_error option \<times> world" where
  "os_remove e path w =
     (let w1 = emit (Remove path) w
      in case files w1 path of
           None \<Rightarrow> (Some (OSError False (Some 2) ''No such file or directory''), w1)
         | Some content \<Rightarrow>
             (case remove_error e path of
                Some err \<Rightarrow> (Some err, w1)
              | None \<Rightarrow> (None, w1\<lparr>files := (files w1)(path := None)\<rparr>)))"

text \<open>
  \<^verbatim>\<open>
  def _attempt_save_with_sudo(conf_content, dir_path, file_path):
      print("Requesting administrator privileges to write theme file via sudo...")
      mkdir_cmd = ["sudo", "mkdir", "-p", dir_path]
      result = subprocess.run(mkdir_cmd)
      if result.returncode != 0:
          raise RuntimeError(f"sudo mkdir returned non-zero exit status {result.returncode}")
      with tempfile.NamedTemporaryFile(delete=False) as tmp:
          tmp.write(conf_content.encode())
          tmp_path = tmp.name
      mv_cmd = ["sudo", "mv", tmp_path, file_path]
      result = subprocess.run(mv_cmd)
      if result.returncode != 0:
          try:
              os.remove(tmp_path)
          except OSError:
              pass
          raise RuntimeError(f"sudo mv returned non-zero exit status {result.returncode}")
      print(f"Stripped theme saved successfully via sudo to {file_path}")
  \<close>
  The result is \<open>Inl\<close> with the text of the exception when one is raised.
\<close>

definition requesting_message :: string where
  "requesting_message = ''Requesting administrator privileges to write theme file via sudo...''"

definition attempt_save_with_sudo ::
  "env \<Rightarrow> string \<Rightarrow> string \<Rightarrow> string \<Rightarrow> world \<Rightarrow> (string + unit) \<times> world" where
  "attempt_save_with_sudo e conf_content dir_path file_path w =
     (let w1 = emit (Print requesting_message) w;
          mkdir_cmd = [''sudo'', ''mkdir'', ''-p'', dir_path];
          (r1, fs1) = subprocess_run e mkdir_cmd (files w1);
          w2 = (emit (RunCmd mkdir_cmd) w1)\<lparr>files := fs1\<rparr>
      in case r1 of
           Inl err \<Rightarrow> (Inl (message err), w2)
         | Inr returncode \<Rightarrow>
             if returncode \<noteq> 0
               then (Inl (''sudo mkdir returned non-zero exit status '' @ str_int returncode), w2)
             else
               (case named_temporary_file e of
                  Inl err \<Rightarrow> (Inl (message err), w2)
                | Inr tmp_path \<Rightarrow>
                    (let w3 = (emit (TempFile tmp_path) w2)
                                \<lparr>files := (files w2)(tmp_path \<mapsto> conf_content)\<rparr>;
                         mv_cmd = [''sudo'', ''mv'', tmp_path, file_path];
                         (r2, fs2) = subprocess_run e mv_cmd (files w3);
                         w4 = (emit (RunCmd mv_cmd) w3)\<lparr>files := fs2\<rparr>
                     in case r2 of
                          Inl err \<Rightarrow> (Inl (message err), w4)
                        | Inr returncode2 \<Rightarrow>
                            if returncode2 \<noteq> 0
                              then (Inl (''sudo mv returned non-zero exit status '' @
                                           str_int returncode2),
                                    snd (os_remove e tmp_path w4))
                            else (Inr (),
                                  emit (Print (''Stripped theme saved successfully via sudo to '' @
                                                 file_path)) w4))))"

text \<open>
  \<^verbatim>\<open>
  def prompt_and_attempt_sudo_save(theme_name, conf_content):
      resp = input("It looks like ... Attempt to save using sudo? (y/N): ").strip().lower()
      if resp != 'y':
          print("Skipping sudo attempt. The stripped theme was NOT saved to the Ghostty directory.")
          return
      ghostty_themes_dir = "/Applications/Ghostty.app/Contents/Resources/ghostty/themes"
      target_path = os.path.join(ghostty_themes_dir, theme_name.lower())
      try:
          _attempt_save_with_sudo(conf_content, ghostty_themes_dir, target_path)
      except Exception as ex:
          print(f"sudo attempt failed: {ex}")
  \<close>
\<close>

definition prompt_and_attempt_sudo_save ::
  "env \<Rightarrow> string \<Rightarrow> string \<Rightarrow> world \<Rightarrow> (py_error + writer_state) \<times> world" where
  "prompt_and_attempt_sudo_save e theme_name conf_content w =
     (case stdin w of
        [] \<Rightarrow> (Inl EOFError, emit (Input sudo_prompt) w)
      | line # rest \<Rightarrow>
          (let w1 = (emit (Input sudo_prompt) w)\<lparr>stdin := rest\<rparr>;
               resp = py_lower (py_strip line)
           in if resp \<noteq> ''y'' then (Inr Aborted, emit (Print skipping_message) w1)
              else
                (let target_path = path_join sudo_ghostty_themes_dir (py_lower theme_name);
                     (r, w2) = attempt_save_with_sudo e conf_content sudo_ghostty_themes_dir
                                 target_path w1
                 in case r of
                      Inr u \<Rightarrow> (Inr Done, w2)
                    | Inl ex \<Rightarrow> (Inr Failed, emit (Print (''sudo attempt failed: '' @ ex)) w2))))"

text \<open>
  \<^verbatim>\<open>
  def save_conf_to_ghostty(theme_name, conf_content):
      ghostty_themes_dir = "/Applications/Ghostty.app/Contents/Resources/themes"
      file_path = os.path.join(ghostty_themes_dir, theme_name.lower())
      try:
          os.makedirs(ghostty_themes_dir, exist_ok=True)
      except OSError as e:
          print(f"Error ensuring Ghostty themes directory exists at {ghostty_themes_dir}: {e}")
          if isinstance(e, PermissionError) or e.errno == 13:
              prompt_and_attempt_sudo_save(theme_name, conf_content)
          return
      try:
          with open(file_path, "w") as f:
              f.write(conf_content)
          print(f"Stripped theme saved successfully to {file_path}")
      except IOError as e:
          print(f"Error writing stripped theme to {file_path}: {e}")
          if isinstance(e, PermissionError) or getattr(e, 'errno', None) == 13:
              prompt_and_attempt_sudo_save(theme_name, conf_content)
  \<close>
\<close>

definition save_conf_to_ghostty ::
  "env \<Rightarrow> string \<Rightarrow> string \<Rightarrow> world \<Rightarrow> (py_error + writer_state) \<times> world" where
  "save_conf_to_ghostty e theme_name conf_content w =
     (let file_path = path_join ghostty_themes_dir (py_lower theme_name);
          w1 = emit (MakeDirs ghostty_themes_dir) w
      in case makedirs_error e ghostty_themes_dir of
           Some err \<Rightarrow>
             (let w2 = emit (Print (''Error ensuring Ghostty themes directory exists at '' @
                                      ghostty_themes_dir @ '': '' @ message err)) w1
              in if permission_denied err
                   then prompt_and_attempt_sudo_save e theme_name conf_content w2
                 else (Inr ErrorReported, w2))
         | None \<Rightarrow>
             (let w2 = emit (OpenWrite file_path conf_content) w1
              in case open_error e file_path of
                   None \<Rightarrow>
                     (Inr Done,
                      emit (Print (''Stripped theme saved successfully to '' @ file_path))
                        (w2\<lparr>files := (files w2)(file_path \<mapsto> conf_content)\<rparr>))
                 | Some err \<Rightarrow>
                     (let w3 = emit (Print (''Error writing stripped theme to '' @ file_path @
                                              '': '' @ message err)) w2
                      in if permission_denied err
                           then prompt_and_attempt_sudo_save e theme_name conf_content w3
                         else (Inr ErrorReported, w3))))"

section \<open>main\<close>


section \<open>Reading the flat format back\<close>

text \<open>
  Modelled from the spec: main.py has no reader for the flat configuration format. The
  design describes the format as line-oriented \<^verbatim>\<open>key = value\<close> text, so the reader below
  cuts the text at every newline and each line at its first \<^verbatim>\<open> = \<close>; a line without
  that separator (the empty piece after the last newline) yields nothing.
\<close>

fun split_lines :: "string \<Rightarrow> string list" where
  "split_lines [] = [[]]"
| "split_lines (c # cs) =
     (if c = CHR 0x0A then [] # split_lines cs
      else (case split_lines cs of [] \<Rightarrow> [[c]] | l # ls \<Rightarrow> (c # l) # ls))"

text \<open>
  Modelled from the spec: a line \<^verbatim>\<open>key = value\<close> is cut at its first \<^verbatim>\<open> = \<close>; there is no such
  function in main.py.
\<close>

fun split_key_value :: "string \<Rightarrow> (string \<times> string) option" where
  "split_key_value [] = None"
| "split_key_value (c # cs) =
     (if take 3 (c # cs) = '' = '' then Some ([], drop 3 (c # cs))
      else map_option (\<lambda>kv. (c # fst kv, snd kv)) (split_key_value cs))"

text \<open>
  Modelled from the spec: the pairs of a flat configuration text, one for each line that
  has the separator, in the order of the lines; there is no such function in main.py.
\<close>

definition parse_conf :: "string \<Rightarrow> (string \<times> string) list" where
  "parse_conf text = List.map_filter split_key_value (split_lines text)"

text \<open>
  Modelled from the spec: the value \<^verbatim>\<open>index=colour\<close> of a palette line is cut at its first
  \<^verbatim>\<open>=\<close>; there is no such function in main.py.
\<close>

fun split_index :: "string \<Rightarrow> (string \<times> string) option" where
  "split_index [] = None"
| "split_index (c # cs) =
     (if c = CHR ''='' then Some ([], cs)
      else map_option (\<lambda>ic. (c # fst ic, snd ic)) (split_index cs))"

text \<open>
  Modelled from the spec: the key/value pair that a pair of strings of the flat format
  stands for. A key is a path: a line of the palette stands for the value at the path
  \<^verbatim>\<open>palette\<close>, index; any other line for the value at its key. The flat format has no
  types, so every value read back is a string.
\<close>

definition entry_of :: "string \<times> string \<Rightarrow> string list \<times> jvalue" where
  "entry_of kv =
     (if fst kv = ''palette''
        then (case split_index (snd kv) of
                Some ic \<Rightarrow> ([''palette'', fst ic], JStr (snd ic))
              | None \<Rightarrow> ([''palette''], JStr (snd kv)))
      else ([fst kv], JStr (snd kv)))"

text \<open>
  Modelled from the spec: re-parsing a flat configuration text into key/value pairs;
  there is no such function in main.py.
\<close>

definition read_pairs :: "string \<Rightarrow> (string list \<times> jvalue) list" where
  "read_pairs text = map entry_of (parse_conf text)"

text \<open>
  Modelled from the spec: the key/value pairs of a document, with the values as the
  document has them. An entry of the palette is the pair of the path \<^verbatim>\<open>palette\<close>, index and
  the colour; any other top-level entry is the pair of its key and its value.
\<close>

definition document_pairs :: "pydict \<Rightarrow> (string list \<times> jvalue) list" where
  "document_pairs theme_data =
     concat (map (\<lambda>kv.
       if fst kv = ''palette''
         then (case snd kv of
                 JObj palette \<Rightarrow> map (\<lambda>ic. ([''palette'', fst ic], snd ic)) palette
               | _ \<Rightarrow> [([''palette''], snd kv)])
       else [([fst kv], snd kv)]) theme_data)"

definition ambiguous_key_doc :: pydict where
  "ambiguous_key_doc = [(''palette'', JObj full_palette), (''a = b'', JStr ''c'')]"

definition ambiguous_value_doc :: pydict where
  "ambiguous_value_doc = [(''palette'', JObj full_palette), (''a'', JStr ''b = c'')]"

definition null_value_doc :: pydict where
  "null_value_doc = [(''palette'', JObj full_palette), (''n'', JNull)]"

definition none_text_doc :: pydict where
  "none_text_doc = [(''palette'', JObj full_palette), (''n'', JStr ''None'')]"

definition equals_key_doc :: pydict where
  "equals_key_doc = [(''palette'', JObj full_palette), (''a=b'', JStr ''c'')]"

definition empty_colour_doc :: pydict where
  "empty_colour_doc =
     [(''palette'', JObj [(''0'', JStr []), (''1'', JStr ''#ff0000'')]),
      (''background'', JStr ''#111111'')]"

section \<open>Example environments\<close>

text \<open>
  Concrete stand-ins for the outside world, used to run the model: a standard input, and
  an environment in which the themes directory exists but the theme file cannot be
  written without elevated rights. The elevated commands either all succeed, the move
  renaming the temporary file, or the move exits with status 1 and changes nothing.
\<close>

definition initial_world :: "string list \<Rightarrow> world" where
  "initial_world input_lines = \<lparr>stdin = input_lines, trace = [], files = Map.empty\<rparr>"

definition sudo_succeeds ::
  "string list \<Rightarrow> (string \<Rightarrow> string option) \<Rightarrow> (os_error + int) \<times> (string \<Rightarrow> string option)" where
  "sudo_succeeds cmd fs =
     (case cmd of
        [a, b, src, dst] \<Rightarrow>
          (if b = ''mv'' then (Inr 0, fs(dst := fs src, src := None)) else (Inr 0, fs))
      | _ \<Rightarrow> (Inr 0, fs))"

definition sudo_mv_fails ::
  "string list \<Rightarrow> (string \<Rightarrow> string option) \<Rightarrow> (os_error + int) \<times> (string \<Rightarrow> string option)" where
  "sudo_mv_fails cmd fs =
     (case cmd of
        [a, b, src, dst] \<Rightarrow> (if b = ''mv'' then (Inr 1, fs) else (Inr 0, fs))
      | _ \<Rightarrow> (Inr 0, fs))"

definition eacces :: os_error where
  "eacces = OSError True (Some 13) ''[Errno 13] Permission denied''"

definition denied_env :: env where
  "denied_env =
     \<lparr>getenv_api_key = Some ''sk-test'',
      env_path = ''/home/user/vibejam/.env'',
      chat_completion = (\<lambda>api_key theme_name. ApiContent (Some ''Sorry, no theme today.'')),
      json_loads = (\<lambda>text. Inl (JSONDecodeError ''Expecting value: line 1 column 1 (char 0)'')),
      json_dumps = (\<lambda>v. py_repr v),
      makedirs_error = (\<lambda>path. None),
      open_error = (\<lambda>path. Some eacces),
      remove_error = (\<lambda>path. None),
      named_temporary_file = Inr ''/tmp/tmpk3v9x2'',
      subprocess_run = sudo_succeeds\<rparr>"

definition mv_fails_env :: env where
  "mv_fails_env = denied_env\<lparr>subprocess_run := sudo_mv_fails\<rparr>"

definition stubborn_env :: env where
  "stubborn_env = mv_fails_env\<lparr>remove_error := (\<lambda>path. Some eacces)\<rparr>"


section \<open>Properties of the converter\<close>

lemma palette_loop_eq:
  "palette_loop p js =
     (map palette_warning (filter (\<lambda>i. \<not> py_truthy (dict_get p (str_nat i))) js),
      map (\<lambda>i. palette_line i (dict_get p (str_nat i))) (filter (\<lambda>i. py_truthy (dict_get p (str_nat i))) js))"
  by (induction js) (simp_all add: Let_def)

lemma items_loop_eq:
  "items_loop d = map (\<lambda>kv. scalar_line (fst kv) (snd kv)) (filter (\<lambda>kv. fst kv \<noteq> ''palette'') d)"
  by (induction d rule: items_loop.induct) simp_all

lemma str_nat_value: "foldl (\<lambda>a ch. 10 * a + (of_char ch - 48)) 0 (str_nat n) = n"
proof (induction n rule: str_nat.induct)
  case (1 n)
  show ?case
  proof (cases "n < 10")
    case True
    then show ?thesis by (subst str_nat.simps) (simp add: digit_char_def)
  next
    case False
    have "n mod 10 < 10" by simp
    then have d: "(48 + n mod 10) mod 256 = 48 + n mod 10" by simp
    from False 1 show ?thesis
      by (subst str_nat.simps) (simp add: digit_char_def d)
  qed
qed

lemma str_nat_inj: "str_nat m = str_nat n \<Longrightarrow> m = n"
  by (metis str_nat_value)

lemma str_nat_digits: "ch \<in> set (str_nat n) \<Longrightarrow> 48 \<le> (of_char ch :: nat) \<and> (of_char ch :: nat) \<le> 57"
proof (induction n rule: str_nat.induct)
  case (1 n)
  have m: "n mod 10 < 10" by simp
  show ?case
  proof (cases "n < 10")
    case True
    with 1(2) show ?thesis by (subst (asm) str_nat.simps) (simp add: digit_char_def)
  next
    case False
    with 1 m show ?thesis by (subst (asm) (2) str_nat.simps) (auto simp add: digit_char_def)
  qed
qed

lemma str_nat_no_eq: "CHR ''='' \<notin> set (str_nat n)"
  using str_nat_digits [of "CHR ''=''" n] by auto

lemma str_nat_no_newline: "CHR 0x0A \<notin> set (str_nat n)"
  using str_nat_digits [of "CHR 0x0A" n] by auto

lemma palette_line_inj: "palette_line i x = palette_line j y \<Longrightarrow> i = j"
proof -
  assume "palette_line i x = palette_line j y"
  then have "str_nat i @ CHR ''='' # py_str x = str_nat j @ CHR ''='' # py_str y"
    by (simp add: palette_line_def)
  then have "takeWhile (\<lambda>ch. ch \<noteq> CHR ''='') (str_nat i @ CHR ''='' # py_str x)
           = takeWhile (\<lambda>ch. ch \<noteq> CHR ''='') (str_nat j @ CHR ''='' # py_str y)" by simp
  moreover have "\<And>n. takeWhile (\<lambda>ch. ch \<noteq> CHR ''='') (str_nat n) = str_nat n"
    using str_nat_no_eq by (auto simp add: takeWhile_eq_all_conv)
  ultimately have "str_nat i = str_nat j"
    by (simp add: takeWhile_tail)
  then show ?thesis by (rule str_nat_inj)
qed


lemma py_join_concat:
  "ls \<noteq> [] \<Longrightarrow> py_join sep ls @ sep = concat (map (\<lambda>l. l @ sep) ls)"
  by (induction sep ls rule: py_join.induct) simp_all

lemma py_join_last:
  "ls \<noteq> [] \<Longrightarrow> \<exists>u. py_join sep ls = u @ last ls"
proof (induction sep ls rule: py_join.induct)
  case (3 sep x y ys)
  then obtain u where "py_join sep (y # ys) = u @ last (y # ys)" by auto
  then have "py_join sep (x # y # ys) = (x @ sep @ u) @ last (x # y # ys)" by simp
  then show ?case by blast
qed simp_all

lemma one_trailing_newline_join:
  assumes "ls \<noteq> []" "last ls \<noteq> []"
  shows "one_trailing_newline (py_join sep ls @ [CHR 0x0A]) \<longleftrightarrow> last (last ls) \<noteq> CHR 0x0A"
proof -
  obtain u where u: "py_join sep ls = u @ last ls" using py_join_last [OF assms(1)] by blast
  obtain w c where w: "last ls = w @ [c]" using assms(2) by (metis append_butlast_last_id)
  show ?thesis by (simp add: u w one_trailing_newline_def)
qed

lemma convert_with_palette:
  assumes "map_of theme_data ''palette'' = Some (JObj palette)"
  shows "convert_theme_to_conf theme_data =
     Inr (fst (palette_loop palette [0..<16]),
          py_join [CHR 0x0A] (snd (palette_loop palette [0..<16]) @ items_loop theme_data) @ [CHR 0x0A])"
  using assms by (simp add: convert_theme_to_conf_def dict_get_default_def split: prod.splits)

lemma palette_loop_complete:
  assumes full: "\<forall>i\<in>set js. map_of palette (str_nat i) = Some (c i) \<and> py_truthy (c i)"
  shows "palette_loop palette js = ([], map (\<lambda>i. palette_line i (c i)) js)"
  using assms by (induction js) (simp_all add: dict_get_def dict_get_default_def)

text \<open>
  Claim C1, as amended. For a document whose palette has a true value at each of the 16
  keys \<^verbatim>\<open>0\<close> to \<^verbatim>\<open>15\<close>, the converter prints no warning and returns the 16 lines
  \<^verbatim>\<open>palette = i=value\<close> for i from 0 to 15 in ascending order, then one line \<^verbatim>\<open>key = value\<close>
  for every other top-level entry in the order of the document, each line followed by
  one newline; the indices are written as the decimal numerals \<^verbatim>\<open>0\<close> to \<^verbatim>\<open>15\<close>. The text ends with exactly one newline if and only if the last line does
  not itself end with a newline.
\<close>

theorem convert_complete_palette:
  assumes "map_of theme_data ''palette'' = Some (JObj palette)"
    and "\<forall>i<16. map_of palette (str_nat i) = Some (c i) \<and> py_truthy (c i)"
  shows "(let ls = map (\<lambda>i. palette_line i (c i)) [0..<16] @
                   map (\<lambda>kv. scalar_line (fst kv) (snd kv))
                     (filter (\<lambda>kv. fst kv \<noteq> ''palette'') theme_data);
              text = concat (map (\<lambda>l. l @ [CHR 0x0A]) ls)
          in convert_theme_to_conf theme_data = Inr ([], text) \<and>
             (one_trailing_newline text \<longleftrightarrow> last (last ls) \<noteq> CHR 0x0A)) \<and>
         map str_nat [0..<16] =
           map (\<lambda>d. [d]) ''0123456789'' @ map (\<lambda>d. [CHR ''1'', d]) ''012345''"
proof -
  define ls where "ls = map (\<lambda>i. palette_line i (c i)) [0..<16] @
                   map (\<lambda>kv. scalar_line (fst kv) (snd kv))
                     (filter (\<lambda>kv. fst kv \<noteq> ''palette'') theme_data)"
  have loop: "palette_loop palette [0..<16] = ([], map (\<lambda>i. palette_line i (c i)) [0..<16])"
    using assms(2) by (intro palette_loop_complete) simp
  have ne: "ls \<noteq> []" by (simp add: ls_def)
  have "\<forall>l\<in>set ls. l \<noteq> []"
    by (auto simp add: ls_def palette_line_def scalar_line_def)
  then have lne: "last ls \<noteq> []" using ne last_in_set by blast
  have conv: "convert_theme_to_conf theme_data = Inr ([], py_join [CHR 0x0A] ls @ [CHR 0x0A])"
    by (simp add: convert_with_palette [OF assms(1)] loop items_loop_eq ls_def)
  have cc: "py_join [CHR 0x0A] ls @ [CHR 0x0A] = concat (map (\<lambda>l. l @ [CHR 0x0A]) ls)"
    using ne by (rule py_join_concat)
  have tr: "one_trailing_newline (py_join [CHR 0x0A] ls @ [CHR 0x0A]) \<longleftrightarrow> last (last ls) \<noteq> CHR 0x0A"
    using ne lne by (rule one_trailing_newline_join)
  have idx: "map str_nat [0..<16] =
           map (\<lambda>d. [d]) ''0123456789'' @ map (\<lambda>d. [CHR ''1'', d]) ''012345''"
    by code_simp
  show ?thesis
    unfolding Let_def ls_def [symmetric] using conv tr idx by (simp only: cc simp_thms)
qed

text \<open>
  Witness for C1: the document \<open>full_doc\<close> has a complete palette; its conversion is the
  18 lines below and ends with exactly one newline.
\<close>

theorem convert_complete_palette_witness:
  "map_of full_doc ''palette'' = Some (JObj full_palette) \<and>
   list_all (\<lambda>i. map_of full_palette (str_nat i) = Some (full_colour i) \<and> py_truthy (full_colour i))
     [0..<16] \<and>
   convert_theme_to_conf full_doc =
     Inr ([], ''palette = 0=#111111\<newline>palette = 1=#ff0000\<newline>palette = 2=#00ff00\<newline>palette = 3=#ffff00\<newline>palette = 4=#0000ff\<newline>palette = 5=#ff00ff\<newline>palette = 6=#00ffff\<newline>palette = 7=#eeeeee\<newline>palette = 8=#555555\<newline>palette = 9=#ff5555\<newline>palette = 10=#55ff55\<newline>palette = 11=#ffff55\<newline>palette = 12=#5555ff\<newline>palette = 13=#ff55ff\<newline>palette = 14=#55ffff\<newline>palette = 15=#ffffff\<newline>background = #111111\<newline>foreground = #eeeeee\<newline>'') \<and>
   one_trailing_newline (concat (map (\<lambda>l. l @ [CHR 0x0A])
     (map (\<lambda>i. palette_line i (full_colour i)) [0..<16] @
      map (\<lambda>kv. scalar_line (fst kv) (snd kv)) (filter (\<lambda>kv. fst kv \<noteq> ''palette'') full_doc))))"
proof -
  have h1: "map_of full_doc ''palette'' = Some (JObj full_palette)"
    by (simp add: full_doc_def)
  have "\<forall>i\<in>set [0..<16]. map_of full_palette (str_nat i) = Some (full_colour i) \<and> py_truthy (full_colour i)"
    by code_simp
  then have h2: "\<forall>i<16. map_of full_palette (str_nat i) = Some (full_colour i) \<and> py_truthy (full_colour i)"
    by simp
  have e: "concat (map (\<lambda>l. l @ [CHR 0x0A])
     (map (\<lambda>i. palette_line i (full_colour i)) [0..<16] @
      map (\<lambda>kv. scalar_line (fst kv) (snd kv)) (filter (\<lambda>kv. fst kv \<noteq> ''palette'') full_doc)))
     = ''palette = 0=#111111\<newline>palette = 1=#ff0000\<newline>palette = 2=#00ff00\<newline>palette = 3=#ffff00\<newline>palette = 4=#0000ff\<newline>palette = 5=#ff00ff\<newline>palette = 6=#00ffff\<newline>palette = 7=#eeeeee\<newline>palette = 8=#555555\<newline>palette = 9=#ff5555\<newline>palette = 10=#55ff55\<newline>palette = 11=#ffff55\<newline>palette = 12=#5555ff\<newline>palette = 13=#ff55ff\<newline>palette = 14=#55ffff\<newline>palette = 15=#ffffff\<newline>background = #111111\<newline>foreground = #eeeeee\<newline>''"
    by code_simp
  have l: "last (last (map (\<lambda>i. palette_line i (full_colour i)) [0..<16] @
      map (\<lambda>kv. scalar_line (fst kv) (snd kv)) (filter (\<lambda>kv. fst kv \<noteq> ''palette'') full_doc))) \<noteq> CHR 0x0A"
    by code_simp
  have h3: "list_all (\<lambda>i. map_of full_palette (str_nat i) = Some (full_colour i) \<and> py_truthy (full_colour i))
     [0..<16]"
    using h2 by (simp add: list_all_iff)
  show ?thesis
    using convert_complete_palette [OF h1 h2] h1 h3 l unfolding Let_def e by blast
qed

text \<open>
  Counterexample to C1 as stated: \<open>newline_value_doc\<close> has a complete palette of non-empty
  colours and one more entry whose value ends with a newline. The value is inserted
  verbatim, so the output ends with two newlines.
\<close>

theorem convert_trailing_newline_counterexample:
  "map_of newline_value_doc ''palette'' = Some (JObj full_palette) \<and>
   map fst full_palette = map str_nat [0..<16] \<and>
   list_all py_truthy (map snd full_palette) \<and>
   convert_theme_to_conf newline_value_doc =
     Inr ([], ''palette = 0=#111111\<newline>palette = 1=#ff0000\<newline>palette = 2=#00ff00\<newline>palette = 3=#ffff00\<newline>palette = 4=#0000ff\<newline>palette = 5=#ff00ff\<newline>palette = 6=#00ffff\<newline>palette = 7=#eeeeee\<newline>palette = 8=#555555\<newline>palette = 9=#ff5555\<newline>palette = 10=#55ff55\<newline>palette = 11=#ffff55\<newline>palette = 12=#5555ff\<newline>palette = 13=#ff55ff\<newline>palette = 14=#55ffff\<newline>palette = 15=#ffffff\<newline>title = demo\<newline>\<newline>'') \<and>
   \<not> one_trailing_newline ''palette = 0=#111111\<newline>palette = 1=#ff0000\<newline>palette = 2=#00ff00\<newline>palette = 3=#ffff00\<newline>palette = 4=#0000ff\<newline>palette = 5=#ff00ff\<newline>palette = 6=#00ffff\<newline>palette = 7=#eeeeee\<newline>palette = 8=#555555\<newline>palette = 9=#ff5555\<newline>palette = 10=#55ff55\<newline>palette = 11=#ffff55\<newline>palette = 12=#5555ff\<newline>palette = 13=#ff55ff\<newline>palette = 14=#55ffff\<newline>palette = 15=#ffffff\<newline>title = demo\<newline>\<newline>''"
  by code_simp

text \<open>
  Claim C2, as amended. For the document with the palette entries 0 and 1 and the
  entry \<^verbatim>\<open>background\<close>, the converter returns the two palette lines for 0 and 1 in that
  order and then \<^verbatim>\<open>background = #111111\<close>, ends the text with one newline, and prints 14
  warnings, one for each of the indices 2 to 15.
\<close>

theorem two_colour_doc_output:
  "convert_theme_to_conf two_colour_doc =
     Inr (map palette_warning [2..<16],
          ''palette = 0=#111111\<newline>palette = 1=#ff0000\<newline>background = #111111\<newline>'') \<and>
   length (map palette_warning [2..<16]) = 14 \<and>
   one_trailing_newline ''palette = 0=#111111\<newline>palette = 1=#ff0000\<newline>background = #111111\<newline>''"
  by code_simp

text \<open>
  Counterexample to C2 as stated: the indices 2 to 15 are 14 indices, so the number of
  warnings is not 13.
\<close>

theorem two_colour_doc_warnings_counterexample:
  "convert_theme_to_conf two_colour_doc =
     Inr (map palette_warning [2..<16],
          ''palette = 0=#111111\<newline>palette = 1=#ff0000\<newline>background = #111111\<newline>'') \<and>
   length (map palette_warning [2..<16]) \<noteq> 13"
  by code_simp

lemma map_of_delete:
  "map_of (filter (\<lambda>kv. fst kv \<noteq> k) p) k' = (if k' = k then None else map_of p k')"
  by (induction p) auto

lemma palette_loop_cong:
  assumes "\<And>j. j \<in> set js \<Longrightarrow> py_truthy (dict_get p (str_nat j)) = py_truthy (dict_get p' (str_nat j))"
    and "\<And>j. j \<in> set js \<Longrightarrow> py_truthy (dict_get p (str_nat j)) \<Longrightarrow> dict_get p (str_nat j) = dict_get p' (str_nat j)"
  shows "palette_loop p js = palette_loop p' js"
proof -
  have f1: "filter (\<lambda>i. \<not> py_truthy (dict_get p (str_nat i))) js = filter (\<lambda>i. \<not> py_truthy (dict_get p' (str_nat i))) js"
    by (rule filter_cong [OF refl]) (simp only: assms(1))
  have f2: "filter (\<lambda>i. py_truthy (dict_get p (str_nat i))) js = filter (\<lambda>i. py_truthy (dict_get p' (str_nat i))) js"
    by (rule filter_cong [OF refl]) (simp only: assms(1))
  have m: "map (\<lambda>i. palette_line i (dict_get p (str_nat i))) (filter (\<lambda>i. py_truthy (dict_get p' (str_nat i))) js)
         = map (\<lambda>i. palette_line i (dict_get p' (str_nat i))) (filter (\<lambda>i. py_truthy (dict_get p' (str_nat i))) js)"
  proof (rule map_cong [OF refl])
    fix x assume "x \<in> set (filter (\<lambda>i. py_truthy (dict_get p' (str_nat i))) js)"
    then have "x \<in> set js" "py_truthy (dict_get p (str_nat x))" by (simp_all add: assms(1))
    then have "dict_get p (str_nat x) = dict_get p' (str_nat x)" by (rule assms(2))
    then show "palette_line x (dict_get p (str_nat x)) = palette_line x (dict_get p' (str_nat x))"
      by (rule arg_cong)
  qed
  show ?thesis
    by (simp only: palette_loop_eq [of p] palette_loop_eq [of p'] f1 f2 m)
qed

text \<open>
  Claim C9. A palette index below 16 whose value is present but false (the empty string,
  for example) is treated like an absent one: the warning for that index is printed, no
  line \<^verbatim>\<open>palette = i=...\<close> for it is produced, and warnings and lines are those of the
  palette with that key deleted.
\<close>

theorem falsy_palette_entry_skipped:
  assumes pal: "map_of theme_data ''palette'' = Some (JObj palette)"
    and i: "i < 16"
    and v: "map_of palette (str_nat i) = Some v"
    and f: "\<not> py_truthy v"
  shows "\<exists>ws ls. convert_theme_to_conf theme_data =
                   Inr (ws, py_join [CHR 0x0A] (ls @ items_loop theme_data) @ [CHR 0x0A]) \<and>
                 palette_loop palette [0..<16] = (ws, ls) \<and>
                 palette_warning i \<in> set ws \<and>
                 (\<forall>x. palette_line i x \<notin> set ls) \<and>
                 palette_loop (filter (\<lambda>kv. fst kv \<noteq> str_nat i) palette) [0..<16] = (ws, ls)"
proof -
  obtain ws ls where loop: "palette_loop palette [0..<16] = (ws, ls)"
    by (cases "palette_loop palette [0..<16]")
  have falsy: "\<not> py_truthy (dict_get palette (str_nat i))"
    using v f by (simp add: dict_get_def dict_get_default_def)
  have conv: "convert_theme_to_conf theme_data =
                Inr (ws, py_join [CHR 0x0A] (ls @ items_loop theme_data) @ [CHR 0x0A])"
    by (simp add: convert_with_palette [OF pal] loop)
  have ws: "ws = map palette_warning (filter (\<lambda>j. \<not> py_truthy (dict_get palette (str_nat j))) [0..<16])"
    and ls: "ls = map (\<lambda>j. palette_line j (dict_get palette (str_nat j)))
                    (filter (\<lambda>j. py_truthy (dict_get palette (str_nat j))) [0..<16])"
    using loop by (simp_all only: palette_loop_eq prod.inject)
  have warned: "palette_warning i \<in> set ws"
    unfolding ws using i falsy by (simp only: set_map set_filter) auto
  have noline: "\<forall>x. palette_line i x \<notin> set ls"
  proof
    fix x
    show "palette_line i x \<notin> set ls"
    proof
      assume "palette_line i x \<in> set ls"
      then obtain j where "palette_line i x = palette_line j (dict_get palette (str_nat j))"
        and "py_truthy (dict_get palette (str_nat j))"
        unfolding ls by (simp only: set_map set_filter) auto
      then show False using falsy palette_line_inj by blast
    qed
  qed
  have "palette_loop (filter (\<lambda>kv. fst kv \<noteq> str_nat i) palette) [0..<16] = palette_loop palette [0..<16]"
  proof (rule palette_loop_cong)
    fix j
    show "py_truthy (dict_get (filter (\<lambda>kv. fst kv \<noteq> str_nat i) palette) (str_nat j)) =
          py_truthy (dict_get palette (str_nat j))"
      using falsy by (cases "str_nat j = str_nat i") (simp_all add: dict_get_def dict_get_default_def map_of_delete)
    show "dict_get (filter (\<lambda>kv. fst kv \<noteq> str_nat i) palette) (str_nat j) = dict_get palette (str_nat j)"
      if "py_truthy (dict_get (filter (\<lambda>kv. fst kv \<noteq> str_nat i) palette) (str_nat j))"
      using that by (cases "str_nat j = str_nat i") (simp_all add: dict_get_def dict_get_default_def map_of_delete)
  qed
  with loop have "palette_loop (filter (\<lambda>kv. fst kv \<noteq> str_nat i) palette) [0..<16] = (ws, ls)" by simp
  with conv loop warned noline show ?thesis by blast
qed

text \<open>
  Witness for C9: in \<open>empty_colour_doc\<close> the palette index 0 is present with the empty
  string as value.
\<close>

theorem falsy_palette_entry_skipped_witness:
  "map_of empty_colour_doc ''palette'' = Some (JObj [(''0'', JStr []), (''1'', JStr ''#ff0000'')]) \<and>
   map_of [(''0'', JStr []), (''1'', JStr ''#ff0000'')] (str_nat 0) = Some (JStr []) \<and>
   \<not> py_truthy (JStr []) \<and>
   (\<exists>ws ls. convert_theme_to_conf empty_colour_doc =
                   Inr (ws, py_join [CHR 0x0A] (ls @ items_loop empty_colour_doc) @ [CHR 0x0A]) \<and>
                 palette_loop [(''0'', JStr []), (''1'', JStr ''#ff0000'')] [0..<16] = (ws, ls) \<and>
                 palette_warning 0 \<in> set ws \<and>
                 (\<forall>x. palette_line 0 x \<notin> set ls) \<and>
                 palette_loop (filter (\<lambda>kv. fst kv \<noteq> str_nat 0) [(''0'', JStr []), (''1'', JStr ''#ff0000'')]) [0..<16] = (ws, ls))"
proof -
  have h1: "map_of empty_colour_doc ''palette'' = Some (JObj [(''0'', JStr []), (''1'', JStr ''#ff0000'')])"
    by (simp add: empty_colour_doc_def)
  have h2: "(0::nat) < 16" by simp
  have h3: "map_of [(''0'', JStr []), (''1'', JStr ''#ff0000'')] (str_nat 0) = Some (JStr [])"
    by code_simp
  have h4: "\<not> py_truthy (JStr [])" by simp
  show ?thesis
    using falsy_palette_entry_skipped [OF h1 h2 h3 h4] h1 h3 h4 by blast
qed

section \<open>Properties of the theme-name prompt\<close>

text \<open>
  Claim C7, as amended. A line read by the prompt is rejected, with the message printed
  and the prompt repeated on the next line, exactly when after stripping and lowercasing
  it is empty or contains one of the eleven characters space, \<^verbatim>\<open>/\<close>, backslash, \<^verbatim>\<open>.\<close>, \<^verbatim>\<open>:\<close>,
  \<^verbatim>\<open>*\<close>, \<^verbatim>\<open>?\<close>, double quote, \<^verbatim>\<open><\<close>, \<^verbatim>\<open>>\<close> and \<^verbatim>\<open>|\<close>. Every other line is accepted, and the
  accepted name is the stripped and lowercased line in which each character that is not
  a letter, a digit, \<^verbatim>\<open>-\<close> or \<^verbatim>\<open>_\<close> has been replaced by \<^verbatim>\<open>_\<close>.
\<close>

theorem theme_name_step:
  assumes "stdin w = line # rest"
  shows "(let t = py_lower (py_strip line) in
     (name_check t \<longleftrightarrow> t \<noteq> [] \<and> set t \<inter> set rejected_chars = {}) \<and>
     (name_check t \<longrightarrow>
        get_theme_name w =
          (Inr (sanitize_name t), w\<lparr>stdin := rest, trace := trace w @ [Input theme_prompt]\<rparr>)) \<and>
     (\<not> name_check t \<longrightarrow>
        get_theme_name w =
          get_theme_name (w\<lparr>stdin := rest,
                             trace := trace w @ [Input theme_prompt, Print invalid_name_message]\<rparr>)) \<and>
     length (sanitize_name t) = length t \<and>
     (\<forall>i<length t. sanitize_name t ! i =
        (if py_isalnum (t ! i) \<or> t ! i = CHR ''-'' \<or> t ! i = CHR ''_'' then t ! i else CHR ''_'')))"
proof -
  define t where "t = py_lower (py_strip line)"
  have a: "name_check t \<longleftrightarrow> t \<noteq> [] \<and> set t \<inter> set rejected_chars = {}"
    unfolding name_check_def by blast
  have b: "get_theme_name w =
          (Inr (sanitize_name t), w\<lparr>stdin := rest, trace := trace w @ [Input theme_prompt]\<rparr>)"
    if "name_check t"
    using that assms by (simp add: get_theme_name_def emits_def t_def)
  have c: "get_theme_name w =
          get_theme_name (w\<lparr>stdin := rest,
                             trace := trace w @ [Input theme_prompt, Print invalid_name_message]\<rparr>)"
    if "\<not> name_check t"
    using that assms by (simp add: get_theme_name_def emits_def t_def split: prod.splits)
  have d: "length (sanitize_name t) = length t" by (simp add: sanitize_name_def)
  have e: "\<forall>i<length t. sanitize_name t ! i =
        (if py_isalnum (t ! i) \<or> t ! i = CHR ''-'' \<or> t ! i = CHR ''_'' then t ! i else CHR ''_'')"
    by (simp add: sanitize_name_def)
  show ?thesis
    unfolding Let_def t_def [symmetric] using a b c d e by blast
qed

text \<open>
  Witness for C7: the first line has a space and is rejected, the second is accepted
  as it is once stripped and lowercased.
\<close>

theorem theme_name_step_witness:
  "fst (get_theme_name (initial_world [''bad name'', '' Vapor-Wave ''])) = Inr ''vapor-wave'' \<and>
   trace (snd (get_theme_name (initial_world [''bad name'', '' Vapor-Wave '']))) =
     [Input theme_prompt, Print invalid_name_message, Input theme_prompt] \<and>
   stdin (snd (get_theme_name (initial_world [''bad name'', '' Vapor-Wave '']))) = []"
proof -
  let ?w = "initial_world [''bad name'', '' Vapor-Wave '']"
  let ?w1 = "?w\<lparr>stdin := ['' Vapor-Wave ''],
                 trace := trace ?w @ [Input theme_prompt, Print invalid_name_message]\<rparr>"
  have s0: "stdin ?w = ''bad name'' # ['' Vapor-Wave '']" by (simp add: initial_world_def)
  have s1: "stdin ?w1 = '' Vapor-Wave '' # []" by simp
  have t0: "py_lower (py_strip ''bad name'') = ''bad name''" by code_simp
  have t1: "py_lower (py_strip '' Vapor-Wave '') = ''vapor-wave''" by code_simp
  have n0: "\<not> name_check ''bad name''" by code_simp
  have n1: "name_check ''vapor-wave''" by code_simp
  have c1: "sanitize_name ''vapor-wave'' = ''vapor-wave''" by code_simp
  have "get_theme_name ?w = get_theme_name ?w1"
    using theme_name_step [OF s0] n0 unfolding Let_def t0 by blast
  moreover have "get_theme_name ?w1 =
     (Inr (sanitize_name ''vapor-wave''), ?w1\<lparr>stdin := [], trace := trace ?w1 @ [Input theme_prompt]\<rparr>)"
    using theme_name_step [OF s1] n1 unfolding Let_def t1 by blast
  ultimately show ?thesis by (simp add: c1 initial_world_def)
qed

text \<open>
  Counterexample to C7 as stated: the line \<^verbatim>\<open>a!b\<close> has a character that is neither a letter,
  a digit, \<^verbatim>\<open>-\<close> nor \<^verbatim>\<open>_\<close>, yet it is accepted at once, without the message, and the name
  returned is \<^verbatim>\<open>a_b\<close>.
\<close>

theorem theme_name_altered_counterexample:
  "CHR ''!'' \<in> set (py_lower (py_strip ''a!b'')) \<and>
   \<not> py_isalnum (CHR ''!'') \<and>
   fst (get_theme_name (initial_world [''a!b''])) = Inr ''a_b'' \<and>
   trace (snd (get_theme_name (initial_world [''a!b'']))) = [Input theme_prompt]"
  by code_simp

section \<open>Properties of the privileged writer\<close>

lemma char_is_y: "x = CHR ''y'' \<longleftrightarrow> (of_char x :: nat) = 121"
proof -
  have "(of_char x :: nat) = of_char (CHR ''y'') \<longleftrightarrow> x = CHR ''y''" by (rule of_char_eq_iff)
  moreover have "of_char (CHR ''y'') = (121::nat)" by simp
  ultimately show ?thesis by metis
qed

lemma char_is_Y: "x = CHR ''Y'' \<longleftrightarrow> (of_char x :: nat) = 89"
proof -
  have "(of_char x :: nat) = of_char (CHR ''Y'') \<longleftrightarrow> x = CHR ''Y''" by (rule of_char_eq_iff)
  moreover have "of_char (CHR ''Y'') = (89::nat)" by simp
  ultimately show ?thesis by metis
qed

lemma of_char_bound: "(of_char c :: nat) < 256"
  by (metis of_char_mod_256 mod_less_divisor zero_less_numeral)

lemma lower_char_y: "lower_char c = CHR ''y'' \<longleftrightarrow> c = CHR ''y'' \<or> c = CHR ''Y''"
proof -
  have b: "(of_char c :: nat) < 256" by (rule of_char_bound)
  have "(of_char (lower_char c) :: nat) = 121 \<longleftrightarrow> (of_char c :: nat) = 121 \<or> (of_char c :: nat) = 89"
    using b by (auto simp add: lower_char_def Let_def)
  then show ?thesis by (simp only: char_is_y char_is_Y)
qed

lemma py_lower_single: "py_lower t = [y] \<longleftrightarrow> (\<exists>c. t = [c] \<and> lower_char c = y)"
  by (cases t) (auto simp add: py_lower_def)

lemma py_strip_single:
  "py_strip s = [c] \<longleftrightarrow>
     \<not> py_isspace c \<and> (\<exists>a b. s = a @ [c] @ b \<and> list_all py_isspace a \<and> list_all py_isspace b)"
proof
  assume st: "py_strip s = [c]"
  define a where "a = takeWhile py_isspace s"
  define m where "m = dropWhile py_isspace s"
  define b where "b = rev (takeWhile py_isspace (rev m))"
  have s: "s = a @ m" by (simp add: a_def m_def)
  from st have "rev (dropWhile py_isspace (rev m)) = [c]"
    by (simp only: py_strip_def m_def)
  then have d: "dropWhile py_isspace (rev m) = [c]"
    by (simp only: rev_singleton_conv)
  have "rev m = takeWhile py_isspace (rev m) @ dropWhile py_isspace (rev m)" by simp
  then have "rev m = rev b @ [c]" by (simp add: d b_def)
  then have m: "m = c # b" by (simp add: rev_swap)
  have nc: "\<not> py_isspace c" using d by (metis hd_dropWhile list.sel(1) list.distinct(1))
  have wa: "list_all py_isspace a" unfolding a_def list_all_iff by (meson set_takeWhileD)
  have wb: "list_all py_isspace b" unfolding b_def list_all_iff by (metis set_rev set_takeWhileD)
  from s m nc wa wb show "\<not> py_isspace c \<and> (\<exists>a b. s = a @ [c] @ b \<and> list_all py_isspace a \<and> list_all py_isspace b)"
    by auto
next
  assume "\<not> py_isspace c \<and> (\<exists>a b. s = a @ [c] @ b \<and> list_all py_isspace a \<and> list_all py_isspace b)"
  then obtain a b where nc: "\<not> py_isspace c" and s: "s = a @ [c] @ b"
    and wa: "list_all py_isspace a" and wb: "list_all py_isspace b" by blast
  have d1: "dropWhile py_isspace s = c # b"
    using wa nc by (simp add: s list_all_iff dropWhile_append2)
  have "\<And>x. x \<in> set (rev b) \<Longrightarrow> py_isspace x"
    using wb by (simp add: list_all_iff)
  then have "dropWhile py_isspace (rev b @ [c]) = dropWhile py_isspace [c]"
    by (rule dropWhile_append2)
  then have d2: "dropWhile py_isspace (rev b @ [c]) = [c]"
    using nc by simp
  show "py_strip s = [c]" by (simp add: py_strip_def d1 d2)
qed

lemma affirmative_iff:
  "py_lower (py_strip line) = ''y'' \<longleftrightarrow>
     (\<exists>a c b. line = a @ [c] @ b \<and> (c = CHR ''y'' \<or> c = CHR ''Y'') \<and>
        list_all py_isspace a \<and> list_all py_isspace b)"
proof -
  have ny: "\<not> py_isspace (CHR ''y'')" "\<not> py_isspace (CHR ''Y'')" by code_simp+
  have "py_lower (py_strip line) = ''y'' \<longleftrightarrow> (\<exists>c. py_strip line = [c] \<and> (c = CHR ''y'' \<or> c = CHR ''Y''))"
    by (simp add: py_lower_single lower_char_y)
  also have "\<dots> \<longleftrightarrow> (\<exists>a c b. line = a @ [c] @ b \<and> (c = CHR ''y'' \<or> c = CHR ''Y'') \<and>
        list_all py_isspace a \<and> list_all py_isspace b)"
    unfolding py_strip_single using ny by blast
  finally show ?thesis .
qed

lemma attempt_trace_prefix:
  "\<exists>es. trace (snd (attempt_save_with_sudo e c d f w)) =
          trace w @ [Print requesting_message, RunCmd [''sudo'', ''mkdir'', ''-p'', d]] @ es"
  by (auto simp add: attempt_save_with_sudo_def emit_def os_remove_def Let_def
           split: prod.splits sum.splits option.splits)

text \<open>
  Claim C10. The answer to the consent prompt counts as a yes only when, stripped and
  lowercased, it is exactly \<^verbatim>\<open>y\<close>, that is, when the line is a single \<^verbatim>\<open>y\<close> or \<^verbatim>\<open>Y\<close> between
  whitespace. With any other answer, \<^verbatim>\<open>yes\<close> included, the function prints that the theme
  was not saved and returns (Aborted): the only events are the prompt and that message,
  so no command is run. With a yes the elevated \<^verbatim>\<open>mkdir\<close> is run.
\<close>

theorem consent_only_on_y:
  assumes "stdin w = line # rest"
  shows "(let resp = py_lower (py_strip line);
              res = prompt_and_attempt_sudo_save e theme_name conf_content w
          in (resp \<noteq> ''y'' \<longrightarrow>
                res = (Inr Aborted,
                       w\<lparr>stdin := rest,
                          trace := trace w @ [Input sudo_prompt, Print skipping_message]\<rparr>)) \<and>
             (resp = ''y'' \<longrightarrow>
                fst res \<noteq> Inr Aborted \<and>
                (\<exists>es. trace (snd res) =
                   trace w @ [Input sudo_prompt, Print requesting_message,
                              RunCmd [''sudo'', ''mkdir'', ''-p'', sudo_ghostty_themes_dir]] @ es)) \<and>
             (resp = ''y'' \<longleftrightarrow>
                (\<exists>a c b. line = a @ [c] @ b \<and> (c = CHR ''y'' \<or> c = CHR ''Y'') \<and>
                   list_all py_isspace a \<and> list_all py_isspace b))) \<and>
         py_lower (py_strip ''yes'') \<noteq> ''y''"
proof -
  define resp where "resp = py_lower (py_strip line)"
  define res where "res = prompt_and_attempt_sudo_save e theme_name conf_content w"
  define w1 where "w1 = (emit (Input sudo_prompt) w)\<lparr>stdin := rest\<rparr>"
  have a: "res = (Inr Aborted,
                       w\<lparr>stdin := rest,
                          trace := trace w @ [Input sudo_prompt, Print skipping_message]\<rparr>)"
    if "resp \<noteq> ''y''"
    using that assms by (simp add: res_def resp_def prompt_and_attempt_sudo_save_def emit_def)
  have b: "fst res \<noteq> Inr Aborted \<and>
                (\<exists>es. trace (snd res) =
                   trace w @ [Input sudo_prompt, Print requesting_message,
                              RunCmd [''sudo'', ''mkdir'', ''-p'', sudo_ghostty_themes_dir]] @ es)"
    if y: "resp = ''y''"
  proof -
    obtain r w2 where att: "attempt_save_with_sudo e conf_content sudo_ghostty_themes_dir
             (path_join sudo_ghostty_themes_dir (py_lower theme_name)) w1 = (r, w2)"
      by (cases "attempt_save_with_sudo e conf_content sudo_ghostty_themes_dir
             (path_join sudo_ghostty_themes_dir (py_lower theme_name)) w1")
    obtain es where es: "trace w2 = trace w1 @ [Print requesting_message,
             RunCmd [''sudo'', ''mkdir'', ''-p'', sudo_ghostty_themes_dir]] @ es"
      using attempt_trace_prefix [of e conf_content sudo_ghostty_themes_dir
             "path_join sudo_ghostty_themes_dir (py_lower theme_name)" w1] att by auto
    have tw1: "trace w1 = trace w @ [Input sudo_prompt]" by (simp add: w1_def emit_def)
    have r: "res = (case r of Inr u \<Rightarrow> (Inr Done, w2)
                     | Inl ex \<Rightarrow> (Inr Failed, emit (Print (''sudo attempt failed: '' @ ex)) w2))"
      using y assms att
      by (simp add: res_def resp_def prompt_and_attempt_sudo_save_def w1_def)
    show ?thesis
    proof (cases r)
      case (Inl ex)
      then have "res = (Inr Failed, emit (Print (''sudo attempt failed: '' @ ex)) w2)"
        using r by simp
      then show ?thesis by (simp add: emit_def es tw1)
    next
      case (Inr u)
      then have "res = (Inr Done, w2)" using r by simp
      then show ?thesis by (simp add: es tw1)
    qed
  qed
  have c: "resp = ''y'' \<longleftrightarrow>
                (\<exists>a c b. line = a @ [c] @ b \<and> (c = CHR ''y'' \<or> c = CHR ''Y'') \<and>
                   list_all py_isspace a \<and> list_all py_isspace b)"
    unfolding resp_def by (rule affirmative_iff)
  have d: "py_lower (py_strip ''yes'') \<noteq> ''y''" by code_simp
  show ?thesis
    unfolding Let_def resp_def [symmetric] res_def [symmetric] using a b c d by blast
qed

text \<open>
  Witness for C10: the answer \<^verbatim>\<open>yes\<close> aborts without running anything; the answer \<^verbatim>\<open>Y\<close>
  between spaces does not abort.
\<close>

theorem consent_only_on_y_witness:
  "fst (prompt_and_attempt_sudo_save denied_env ''Dungeon'' ''x'' (initial_world [''yes''])) = Inr Aborted \<and>
   trace (snd (prompt_and_attempt_sudo_save denied_env ''Dungeon'' ''x'' (initial_world [''yes'']))) =
     [Input sudo_prompt, Print skipping_message] \<and>
   fst (prompt_and_attempt_sudo_save denied_env ''Dungeon'' ''x'' (initial_world ['' Y ''])) \<noteq> Inr Aborted"
proof -
  have s0: "stdin (initial_world [''yes'']) = ''yes'' # []" by (simp add: initial_world_def)
  have s1: "stdin (initial_world ['' Y '']) = '' Y '' # []" by (simp add: initial_world_def)
  have n: "py_lower (py_strip ''yes'') \<noteq> ''y''" by code_simp
  have y: "py_lower (py_strip '' Y '') = ''y''" by code_simp
  have "prompt_and_attempt_sudo_save denied_env ''Dungeon'' ''x'' (initial_world [''yes'']) =
          (Inr Aborted, (initial_world [''yes''])\<lparr>stdin := [],
              trace := trace (initial_world [''yes'']) @ [Input sudo_prompt, Print skipping_message]\<rparr>)"
    using consent_only_on_y [OF s0, of denied_env "''Dungeon''" "''x''"] n unfolding Let_def by blast
  moreover have "fst (prompt_and_attempt_sudo_save denied_env ''Dungeon'' ''x'' (initial_world ['' Y ''])) \<noteq> Inr Aborted"
    using consent_only_on_y [OF s1, of denied_env "''Dungeon''" "''x''"] y unfolding Let_def by blast
  ultimately show ?thesis by (simp add: initial_world_def)
qed

text \<open>
  Claim C4. When the first attempt fails with a permission error, in creating the
  directory or in writing the file, and the answer to the consent prompt is not a yes,
  the writer ends in Aborted after printing that the theme was not saved; the events of
  the run are the attempt, the error message, the prompt and that message, and none of
  them is an external command. The files are unchanged.
\<close>

theorem declined_after_permission_denied:
  assumes "stdin w = line # rest"
    and "py_lower (py_strip line) \<noteq> ''y''"
    and "makedirs_error e ghostty_themes_dir = Some err \<or>
         (makedirs_error e ghostty_themes_dir = None \<and>
          open_error e (path_join ghostty_themes_dir (py_lower theme_name)) = Some err)"
    and "permission_denied err"
  shows "(let file_path = path_join ghostty_themes_dir (py_lower theme_name);
              es = (if makedirs_error e ghostty_themes_dir = None
                    then [MakeDirs ghostty_themes_dir, OpenWrite file_path conf_content,
                          Print (''Error writing stripped theme to '' @ file_path @ '': '' @
                                 message err)]
                    else [MakeDirs ghostty_themes_dir,
                          Print (''Error ensuring Ghostty themes directory exists at '' @
                                 ghostty_themes_dir @ '': '' @ message err)])
                   @ [Input sudo_prompt, Print skipping_message]
          in save_conf_to_ghostty e theme_name conf_content w =
               (Inr Aborted, w\<lparr>stdin := rest, trace := trace w @ es\<rparr>) \<and>
             (\<forall>cmd. RunCmd cmd \<notin> set es) \<and>
             Print skipping_message \<in> set es)"
proof -
  have p: "\<And>w0. stdin w0 = line # rest \<Longrightarrow>
      prompt_and_attempt_sudo_save e theme_name conf_content w0 =
        (Inr Aborted, w0\<lparr>stdin := rest,
                          trace := trace w0 @ [Input sudo_prompt, Print skipping_message]\<rparr>)"
    using assms(2) by (simp add: prompt_and_attempt_sudo_save_def emit_def)
  from assms(3) show ?thesis
  proof
    assume m: "makedirs_error e ghostty_themes_dir = Some err"
    show ?thesis
      using m assms(1,4) by (simp add: save_conf_to_ghostty_def Let_def emit_def p)
  next
    assume m: "makedirs_error e ghostty_themes_dir = None \<and>
          open_error e (path_join ghostty_themes_dir (py_lower theme_name)) = Some err"
    show ?thesis
      using m assms(1,4) by (simp add: save_conf_to_ghostty_def Let_def emit_def p)
  qed
qed

text \<open>
  Witness for C4: in \<open>denied_env\<close> the file cannot be written, and the operator answers
  \<^verbatim>\<open>n\<close>.
\<close>

theorem declined_after_permission_denied_witness:
  "permission_denied eacces \<and>
   fst (save_conf_to_ghostty denied_env ''Dungeon'' ''x'' (initial_world [''n''])) = Inr Aborted \<and>
   trace (snd (save_conf_to_ghostty denied_env ''Dungeon'' ''x'' (initial_world [''n'']))) =
     [MakeDirs ghostty_themes_dir,
      OpenWrite (path_join ghostty_themes_dir (py_lower ''Dungeon'')) ''x'',
      Print (''Error writing stripped theme to '' @ path_join ghostty_themes_dir (py_lower ''Dungeon'') @
             '': '' @ message eacces),
      Input sudo_prompt, Print skipping_message]"
proof -
  have s0: "stdin (initial_world [''n'']) = ''n'' # []" by (simp add: initial_world_def)
  have n: "py_lower (py_strip ''n'') \<noteq> ''y''" by code_simp
  have d: "makedirs_error denied_env ghostty_themes_dir = Some eacces \<or>
         (makedirs_error denied_env ghostty_themes_dir = None \<and>
          open_error denied_env (path_join ghostty_themes_dir (py_lower ''Dungeon'')) = Some eacces)"
    by (simp add: denied_env_def)
  have pd: "permission_denied eacces" by (simp add: permission_denied_def eacces_def)
  have m: "makedirs_error denied_env ghostty_themes_dir = None" by (simp add: denied_env_def)
  show ?thesis
    using declined_after_permission_denied [OF s0 n d pd, of "''x''"] pd
    unfolding Let_def by (simp add: m initial_world_def)
qed

lemma os_remove_effect:
  "stdin (snd (os_remove e p w)) = stdin w"
  "trace (snd (os_remove e p w)) = trace w @ [Remove p]"
  "files (snd (os_remove e p w)) p = None \<longleftrightarrow> files w p = None \<or> remove_error e p = None"
  by (simp_all add: os_remove_def emit_def Let_def split: option.splits)

text \<open>
  Claim C5, as amended. After a yes, when the elevated \<^verbatim>\<open>mkdir\<close> exits with 0 and the
  elevated \<^verbatim>\<open>mv\<close> of the temporary file exits with another status, the writer ends in
  Failed and prints that status; before that it calls \<^verbatim>\<open>os.remove\<close> on the temporary file
  once and ignores its error. Afterwards the temporary file is gone exactly when the
  move had already taken it away or the removal was not refused.
\<close>

theorem failed_move_cleanup:
  assumes "stdin w = line # rest"
    and "py_lower (py_strip line) = ''y''"
    and "subprocess_run e [''sudo'', ''mkdir'', ''-p'', sudo_ghostty_themes_dir] (files w) = (Inr 0, fs1)"
    and "named_temporary_file e = Inr tmp_path"
    and "subprocess_run e
           [''sudo'', ''mv'', tmp_path, path_join sudo_ghostty_themes_dir (py_lower theme_name)]
           (fs1(tmp_path \<mapsto> conf_content)) = (Inr returncode, fs2)"
    and "returncode \<noteq> 0"
  shows "\<exists>w'. prompt_and_attempt_sudo_save e theme_name conf_content w = (Inr Failed, w') \<and>
              stdin w' = rest \<and>
              trace w' = trace w @
                [Input sudo_prompt, Print requesting_message,
                 RunCmd [''sudo'', ''mkdir'', ''-p'', sudo_ghostty_themes_dir],
                 TempFile tmp_path,
                 RunCmd [''sudo'', ''mv'', tmp_path,
                         path_join sudo_ghostty_themes_dir (py_lower theme_name)],
                 Remove tmp_path,
                 Print (''sudo attempt failed: sudo mv returned non-zero exit status '' @
                        str_int returncode)] \<and>
              (files w' tmp_path = None \<longleftrightarrow> fs2 tmp_path = None \<or> remove_error e tmp_path = None)"
proof -
  let ?target = "path_join sudo_ghostty_themes_dir (py_lower theme_name)"
  let ?mkdir = "[''sudo'', ''mkdir'', ''-p'', sudo_ghostty_themes_dir]"
  let ?mv = "[''sudo'', ''mv'', tmp_path, ?target]"
  define w1 where "w1 = (emit (Input sudo_prompt) w)\<lparr>stdin := rest\<rparr>"
  define w1a where "w1a = emit (Print requesting_message) w1"
  define w2 where "w2 = (emit (RunCmd ?mkdir) w1a)\<lparr>files := fs1\<rparr>"
  define w3 where "w3 = (emit (TempFile tmp_path) w2)\<lparr>files := (files w2)(tmp_path \<mapsto> conf_content)\<rparr>"
  define w4 where "w4 = (emit (RunCmd ?mv) w3)\<lparr>files := fs2\<rparr>"
  define w5 where "w5 = snd (os_remove e tmp_path w4)"
  have m1: "subprocess_run e ?mkdir (files w1a) = (Inr 0, fs1)"
    using assms(3) by (simp add: w1a_def w1_def emit_def)
  have f3: "files w3 = fs1(tmp_path \<mapsto> conf_content)"
    by (simp add: w3_def w2_def)
  have m2: "subprocess_run e ?mv (files w3) = (Inr returncode, fs2)"
    using assms(5) by (simp only: f3)
  have att: "attempt_save_with_sudo e conf_content sudo_ghostty_themes_dir ?target w1 =
          (Inl (''sudo mv returned non-zero exit status '' @ str_int returncode), w5)"
    unfolding attempt_save_with_sudo_def Let_def
    unfolding w1a_def [symmetric] m1 prod.case sum.case
    unfolding w2_def [symmetric] assms(4) sum.case
    unfolding w3_def [symmetric] m2 prod.case sum.case
    unfolding w4_def [symmetric] w5_def
    using assms(6) by simp
  have res: "prompt_and_attempt_sudo_save e theme_name conf_content w =
          (Inr Failed, emit (Print (''sudo attempt failed: '' @
             (''sudo mv returned non-zero exit status '' @ str_int returncode))) w5)"
    using assms(1,2) att by (simp add: prompt_and_attempt_sudo_save_def w1_def)
  have t4: "trace w4 = trace w @ [Input sudo_prompt, Print requesting_message, RunCmd ?mkdir,
                TempFile tmp_path, RunCmd ?mv]"
    by (simp add: w4_def w3_def w2_def w1a_def w1_def emit_def)
  have s4: "stdin w4 = rest"
    by (simp add: w4_def w3_def w2_def w1a_def w1_def emit_def)
  have f4: "files w4 = fs2" by (simp add: w4_def)
  have s5: "stdin w5 = rest" by (simp add: w5_def os_remove_effect(1) s4)
  have t5: "trace w5 = trace w @ [Input sudo_prompt, Print requesting_message, RunCmd ?mkdir,
                TempFile tmp_path, RunCmd ?mv, Remove tmp_path]"
    by (simp add: w5_def os_remove_effect(2) t4)
  have f5: "files w5 tmp_path = None \<longleftrightarrow> fs2 tmp_path = None \<or> remove_error e tmp_path = None"
    by (simp only: w5_def os_remove_effect(3) f4)
  show ?thesis
    using res s5 t5 f5 by (simp add: emit_def)
qed

text \<open>
  Witness for C5: in \<open>mv_fails_env\<close> the move exits with 1 and the removal succeeds, so
  the temporary file is gone.
\<close>

theorem failed_move_cleanup_witness:
  "fst (prompt_and_attempt_sudo_save mv_fails_env ''Dungeon'' ''x'' (initial_world [''y''])) = Inr Failed \<and>
   Remove ''/tmp/tmpk3v9x2'' \<in>
     set (trace (snd (prompt_and_attempt_sudo_save mv_fails_env ''Dungeon'' ''x'' (initial_world [''y''])))) \<and>
   files (snd (prompt_and_attempt_sudo_save mv_fails_env ''Dungeon'' ''x'' (initial_world [''y''])))
     ''/tmp/tmpk3v9x2'' = None"
proof -
  have h1: "stdin (initial_world [''y'']) = ''y'' # []" by (simp add: initial_world_def)
  have h2: "py_lower (py_strip ''y'') = ''y''" by code_simp
  have h3: "subprocess_run mv_fails_env [''sudo'', ''mkdir'', ''-p'', sudo_ghostty_themes_dir]
              (files (initial_world [''y''])) = (Inr 0, Map.empty)"
    by (simp add: mv_fails_env_def denied_env_def sudo_mv_fails_def initial_world_def)
  have h4: "named_temporary_file mv_fails_env = Inr ''/tmp/tmpk3v9x2''"
    by (simp add: mv_fails_env_def denied_env_def)
  have h5: "subprocess_run mv_fails_env
           [''sudo'', ''mv'', ''/tmp/tmpk3v9x2'', path_join sudo_ghostty_themes_dir (py_lower ''Dungeon'')]
           (Map.empty(''/tmp/tmpk3v9x2'' \<mapsto> ''x'')) = (Inr 1, Map.empty(''/tmp/tmpk3v9x2'' \<mapsto> ''x''))"
    by (simp add: mv_fails_env_def denied_env_def sudo_mv_fails_def)
  have h6: "(1::int) \<noteq> 0" by simp
  have r: "remove_error mv_fails_env ''/tmp/tmpk3v9x2'' = None"
    by (simp add: mv_fails_env_def denied_env_def)
  from failed_move_cleanup [OF h1 h2 h3 h4 h5 h6] r show ?thesis by auto
qed

text \<open>
  Counterexample to C5 as stated: in \<open>stubborn_env\<close> the move exits with 1 and the
  operating system refuses the removal. The error is ignored, the writer ends in Failed,
  and the temporary file is still there.
\<close>

theorem failed_move_leaves_file_counterexample:
  "fst (subprocess_run stubborn_env [''sudo'', ''mkdir'', ''-p'', sudo_ghostty_themes_dir] Map.empty) = Inr 0 \<and>
   fst (subprocess_run stubborn_env
          [''sudo'', ''mv'', ''/tmp/tmpk3v9x2'', path_join sudo_ghostty_themes_dir (py_lower ''Dungeon'')]
          (Map.empty(''/tmp/tmpk3v9x2'' \<mapsto> ''x''))) = Inr 1 \<and>
   fst (prompt_and_attempt_sudo_save stubborn_env ''Dungeon'' ''x'' (initial_world [''y''])) = Inr Failed \<and>
   Remove ''/tmp/tmpk3v9x2'' \<in>
     set (trace (snd (prompt_and_attempt_sudo_save stubborn_env ''Dungeon'' ''x'' (initial_world [''y''])))) \<and>
   files (snd (prompt_and_attempt_sudo_save stubborn_env ''Dungeon'' ''x'' (initial_world [''y''])))
     ''/tmp/tmpk3v9x2'' = Some ''x''"
  by code_simp

text \<open>
  Claim C3 fails on the code. In \<open>denied_env\<close>, for the theme \<^verbatim>\<open>Dungeon\<close>, the first
  attempt writes to \<^verbatim>\<open>.../Contents/Resources/themes/dungeon\<close>, is refused, and after a yes
  the elevated commands create \<^verbatim>\<open>.../Contents/Resources/ghostty/themes\<close> and move the
  file to \<^verbatim>\<open>.../Contents/Resources/ghostty/themes/dungeon\<close>: the text ends up at a path
  other than the one first tried.
\<close>

theorem sudo_path_differs:
  "fst (save_conf_to_ghostty denied_env ''Dungeon'' ''x'' (initial_world [''y''])) = Inr Done \<and>
   trace (snd (save_conf_to_ghostty denied_env ''Dungeon'' ''x'' (initial_world [''y'']))) =
     [MakeDirs ''/Applications/Ghostty.app/Contents/Resources/themes'',
      OpenWrite ''/Applications/Ghostty.app/Contents/Resources/themes/dungeon'' ''x'',
      Print ''Error writing stripped theme to /Applications/Ghostty.app/Contents/Resources/themes/dungeon: [Errno 13] Permission denied'',
      Input sudo_prompt,
      Print requesting_message,
      RunCmd [''sudo'', ''mkdir'', ''-p'', ''/Applications/Ghostty.app/Contents/Resources/ghostty/themes''],
      TempFile ''/tmp/tmpk3v9x2'',
      RunCmd [''sudo'', ''mv'', ''/tmp/tmpk3v9x2'',
              ''/Applications/Ghostty.app/Contents/Resources/ghostty/themes/dungeon''],
      Print ''Stripped theme saved successfully via sudo to /Applications/Ghostty.app/Contents/Resources/ghostty/themes/dungeon''] \<and>
   files (snd (save_conf_to_ghostty denied_env ''Dungeon'' ''x'' (initial_world [''y''])))
     ''/Applications/Ghostty.app/Contents/Resources/ghostty/themes/dungeon'' = Some ''x'' \<and>
   files (snd (save_conf_to_ghostty denied_env ''Dungeon'' ''x'' (initial_world [''y''])))
     ''/Applications/Ghostty.app/Contents/Resources/themes/dungeon'' = None"
  by code_simp

section \<open>Properties of main\<close>




section \<open>Properties of the round trip\<close>

lemma split_lines_line:
  "CHR 0x0A \<notin> set l \<Longrightarrow> split_lines (l @ CHR 0x0A # rest) = l # split_lines rest"
  by (induction l) auto

lemma split_lines_concat:
  "\<forall>l\<in>set ls. CHR 0x0A \<notin> set l \<Longrightarrow>
     split_lines (concat (map (\<lambda>l. l @ [CHR 0x0A]) ls)) = ls @ [[]]"
  by (induction ls) (simp_all add: split_lines_line)

lemma split_key_value_line:
  "\<not> py_contains '' = '' (k @ '' '') \<Longrightarrow> split_key_value (k @ '' = '' @ v) = Some (k, v)"
proof (induction k)
  case Nil
  show ?case by simp
next
  case (Cons c k)
  have "py_contains '' = '' (c # (k @ '' '')) =
          (take (length '' = '') (c # (k @ '' '')) = '' = '' \<or> py_contains '' = '' (k @ '' ''))"
    by (rule py_contains.simps(2))
  with Cons.prems have nt: "take (length '' = '') (c # (k @ '' '')) \<noteq> '' = ''"
    and nk: "\<not> py_contains '' = '' (k @ '' '')"
    by (simp_all only: append_Cons) blast+
  from nk have ih: "split_key_value (k @ '' = '' @ v) = Some (k, v)" by (rule Cons.IH)
  have ne: "take 3 (c # (k @ '' = '' @ v)) \<noteq> '' = ''"
  proof (cases k)
    case Nil
    then show ?thesis by simp
  next
    case k1: (Cons d k')
    show ?thesis
    proof (cases k')
      case Nil
      with k1 nt show ?thesis by simp
    next
      case (Cons e k'')
      with k1 nt show ?thesis by simp
    qed
  qed
  have "split_key_value (c # (k @ '' = '' @ v)) =
          map_option (\<lambda>kv. (c # fst kv, snd kv)) (split_key_value (k @ '' = '' @ v))"
    using ne by (simp only: split_key_value.simps if_False)
  then show ?case using ih by simp
qed

lemma split_index_line:
  "CHR ''='' \<notin> set k \<Longrightarrow> split_index (k @ CHR ''='' # v) = Some (k, v)"
  by (induction k) auto

lemma parse_conf_lines:
  assumes "\<forall>l\<in>set ls. CHR 0x0A \<notin> set l"
  shows "parse_conf (py_join [CHR 0x0A] ls @ [CHR 0x0A]) = List.map_filter split_key_value ls"
proof (cases "ls = []")
  case True
  then show ?thesis by (simp add: parse_conf_def)
next
  case False
  then have "py_join [CHR 0x0A] ls @ [CHR 0x0A] = concat (map (\<lambda>l. l @ [CHR 0x0A]) ls)"
    by (rule py_join_concat)
  then have "split_lines (py_join [CHR 0x0A] ls @ [CHR 0x0A]) = ls @ [[]]"
    using split_lines_concat [OF assms] by simp
  then show ?thesis by (simp add: parse_conf_def map_filter_def)
qed

lemma split_palette_line:
  "split_key_value (palette_line i v) = Some (''palette'', str_nat i @ ''='' @ py_str v)"
proof -
  have "palette_line i v = ''palette'' @ '' = '' @ (str_nat i @ ''='' @ py_str v)"
    by (simp add: palette_line_def)
  moreover have "\<not> py_contains '' = '' (''palette'' @ '' '')" by code_simp
  then have "split_key_value (''palette'' @ '' = '' @ (str_nat i @ ''='' @ py_str v)) =
               Some (''palette'', str_nat i @ ''='' @ py_str v)"
    by (rule split_key_value_line)
  ultimately show ?thesis by (simp only:)
qed

lemma split_scalar_line:
  "\<not> py_contains '' = '' (k @ '' '') \<Longrightarrow> split_key_value (scalar_line k v) = Some (k, py_str v)"
  unfolding scalar_line_def by (rule split_key_value_line)

lemma entry_of_palette:
  "entry_of (''palette'', str_nat i @ ''='' @ c) = ([''palette'', str_nat i], JStr c)"
proof -
  have "split_index (str_nat i @ CHR ''='' # c) = Some (str_nat i, c)"
    using str_nat_no_eq by (rule split_index_line)
  then show ?thesis by (simp add: entry_of_def)
qed

lemma dict_get_truthy_mem:
  "py_truthy (dict_get p k) \<Longrightarrow> (k, dict_get p k) \<in> set p"
  by (cases "map_of p k") (auto simp add: dict_get_def dict_get_default_def dest: map_of_SomeD)

lemma dict_get_distinct:
  "distinct (map fst p) \<Longrightarrow> (k, v) \<in> set p \<Longrightarrow> dict_get p k = v"
  by (simp add: dict_get_def dict_get_default_def)

lemma map_filter_map_all_some:
  "\<forall>x\<in>set xs. f (h x) = Some (g x) \<Longrightarrow> List.map_filter f (map h xs) = map g xs"
  by (induction xs) simp_all

lemma in_set_concat_map: "x \<in> set (concat (map F d)) \<longleftrightarrow> (\<exists>kv\<in>set d. x \<in> set (F kv))"
  by (induction d) auto

text \<open>
  Claim C6, as amended. Take a document with pairwise distinct keys in which every value
  is a string without a newline: the palette is a mapping with pairwise distinct keys
  among \<^verbatim>\<open>0\<close> to \<^verbatim>\<open>15\<close> and non-empty colours, and no key other than \<^verbatim>\<open>palette\<close> has a newline
  or, with a space put after it, contains the separator \<^verbatim>\<open> = \<close> (a key may contain \<^verbatim>\<open>=\<close>).
  Then the converter succeeds, and reading its output back (cutting at newlines, each
  line at its first \<^verbatim>\<open> = \<close>, and the value of a palette line at its first \<^verbatim>\<open>=\<close>) gives
  exactly the set of key/value pairs of the document, the pair of a palette entry being
  that of the path \<^verbatim>\<open>palette\<close>, index and the colour.
\<close>

theorem roundtrip_pairs:
  assumes pal: "map_of theme_data ''palette'' = Some (JObj palette)"
    and dk: "distinct (map fst theme_data)"
    and dp: "distinct (map fst palette)"
    and pidx: "\<forall>kv\<in>set palette. fst kv \<in> set (map str_nat [0..<16])"
    and pstr: "\<forall>kv\<in>set palette. \<exists>c. snd kv = JStr c \<and> c \<noteq> [] \<and> CHR 0x0A \<notin> set c"
    and sok: "\<forall>kv\<in>set theme_data. fst kv \<noteq> ''palette'' \<longrightarrow>
                 \<not> py_contains '' = '' (fst kv @ '' '') \<and> CHR 0x0A \<notin> set (fst kv) \<and>
                 (\<exists>s. snd kv = JStr s \<and> CHR 0x0A \<notin> set s)"
  shows "\<exists>ws text. convert_theme_to_conf theme_data = Inr (ws, text) \<and>
                set (read_pairs text) = set (document_pairs theme_data)"
proof -
  define truthy where "truthy = (\<lambda>i. py_truthy (dict_get palette (str_nat i)))"
  define P where "P = filter truthy [0..<16]"
  define sc where "sc = filter (\<lambda>kv. fst kv \<noteq> ''palette'') theme_data"
  define pl where "pl = map (\<lambda>i. palette_line i (dict_get palette (str_nat i))) P"
  define sl where "sl = map (\<lambda>kv. scalar_line (fst kv) (snd kv)) sc"
  define pp where "pp = map (\<lambda>i. (''palette'', str_nat i @ ''='' @ py_str (dict_get palette (str_nat i)))) P"
  define sp where "sp = map (\<lambda>kv. (fst kv, py_str (snd kv))) sc"
  define pe where "pe = map (\<lambda>i. ([''palette'', str_nat i], dict_get palette (str_nat i))) P"
  define se where "se = map (\<lambda>kv. ([fst kv], snd kv)) sc"
  have loop: "palette_loop palette [0..<16] =
                (map palette_warning (filter (\<lambda>i. \<not> truthy i) [0..<16]), pl)"
    by (simp only: palette_loop_eq pl_def P_def truthy_def)
  have conv: "convert_theme_to_conf theme_data =
                Inr (map palette_warning (filter (\<lambda>i. \<not> truthy i) [0..<16]),
                     py_join [CHR 0x0A] (pl @ sl) @ [CHR 0x0A])"
    by (simp only: convert_with_palette [OF pal] loop fst_conv snd_conv items_loop_eq sl_def sc_def)
  have Pmem: "(str_nat i, dict_get palette (str_nat i)) \<in> set palette" if "i \<in> set P" for i
    using that by (simp add: P_def truthy_def dict_get_truthy_mem)
  have Pstr: "\<exists>c. dict_get palette (str_nat i) = JStr c \<and> CHR 0x0A \<notin> set c" if "i \<in> set P" for i
    using Pmem [OF that] pstr by fastforce
  have Sstr: "\<exists>s. snd kv = JStr s \<and> CHR 0x0A \<notin> set s"
    and Skey: "\<not> py_contains '' = '' (fst kv @ '' '')" "CHR 0x0A \<notin> set (fst kv)"
    and Snp: "fst kv \<noteq> ''palette''"
    if "kv \<in> set sc" for kv
    using that sok by (auto simp add: sc_def)
  have pnl: "\<forall>l\<in>set pl. CHR 0x0A \<notin> set l"
  proof
    fix l assume "l \<in> set pl"
    then obtain i where i: "i \<in> set P" and l: "l = palette_line i (dict_get palette (str_nat i))"
      by (auto simp add: pl_def)
    from Pstr [OF i] obtain c where "dict_get palette (str_nat i) = JStr c" "CHR 0x0A \<notin> set c"
      by blast
    then show "CHR 0x0A \<notin> set l"
      using str_nat_no_newline [of i] by (simp add: l palette_line_def py_str_def)
  qed
  have snl: "\<forall>l\<in>set sl. CHR 0x0A \<notin> set l"
  proof
    fix l assume "l \<in> set sl"
    then obtain kv where kv: "kv \<in> set sc" and l: "l = scalar_line (fst kv) (snd kv)"
      by (auto simp add: sl_def)
    from Sstr [OF kv] obtain s where "snd kv = JStr s" "CHR 0x0A \<notin> set s" by blast
    then show "CHR 0x0A \<notin> set l"
      using Skey(2) [OF kv] by (simp add: l scalar_line_def py_str_def)
  qed
  have nl: "\<forall>l\<in>set (pl @ sl). CHR 0x0A \<notin> set l" using pnl snl by auto
  have mp: "List.map_filter split_key_value pl = pp"
    unfolding pl_def pp_def
    by (rule map_filter_map_all_some) (simp add: split_palette_line)
  have ms: "List.map_filter split_key_value sl = sp"
    unfolding sl_def sp_def
  proof (rule map_filter_map_all_some, rule ballI)
    fix kv assume "kv \<in> set sc"
    then have "\<not> py_contains '' = '' (fst kv @ '' '')" by (rule Skey(1))
    then show "split_key_value (scalar_line (fst kv) (snd kv)) = Some (fst kv, py_str (snd kv))"
      by (rule split_scalar_line)
  qed
  have parse: "parse_conf (py_join [CHR 0x0A] (pl @ sl) @ [CHR 0x0A]) = pp @ sp"
    unfolding parse_conf_lines [OF nl] using mp ms by (simp add: map_filter_def)
  have ep: "map entry_of pp = pe"
    unfolding pp_def pe_def map_map
  proof (rule map_cong [OF refl])
    fix i assume "i \<in> set P"
    from Pstr [OF this] obtain c where c: "dict_get palette (str_nat i) = JStr c" by blast
    show "(entry_of \<circ> (\<lambda>i. (''palette'', str_nat i @ ''='' @ py_str (dict_get palette (str_nat i))))) i
            = ([''palette'', str_nat i], dict_get palette (str_nat i))"
      using entry_of_palette [of i c] by (simp add: c py_str_def)
  qed
  have es: "map entry_of sp = se"
    unfolding sp_def se_def map_map
  proof (rule map_cong [OF refl])
    fix kv assume kv: "kv \<in> set sc"
    from Sstr [OF kv] obtain s where s: "snd kv = JStr s" by blast
    show "(entry_of \<circ> (\<lambda>kv. (fst kv, py_str (snd kv)))) kv = ([fst kv], snd kv)"
      using Snp [OF kv] by (simp add: s py_str_def entry_of_def)
  qed
  have rd: "read_pairs (py_join [CHR 0x0A] (pl @ sl) @ [CHR 0x0A]) = pe @ se"
    by (simp only: read_pairs_def parse map_append ep es)
  have spe: "set pe = (\<lambda>kv. ([''palette'', fst kv], snd kv)) ` set palette"
  proof (rule set_eqI, rule iffI)
    fix x assume "x \<in> set pe"
    then obtain i where i: "i \<in> set P"
      and x: "x = ([''palette'', str_nat i], dict_get palette (str_nat i))"
      by (auto simp add: pe_def)
    from Pmem [OF i] show "x \<in> (\<lambda>kv. ([''palette'', fst kv], snd kv)) ` set palette"
      unfolding x by (rule rev_image_eqI) simp
  next
    fix x assume "x \<in> (\<lambda>kv. ([''palette'', fst kv], snd kv)) ` set palette"
    then obtain k v where kv: "(k, v) \<in> set palette" and x: "x = ([''palette'', k], v)"
      by auto
    from kv pidx obtain i where i: "i < 16" "k = str_nat i" by auto
    have g: "dict_get palette (str_nat i) = v"
      using dict_get_distinct [OF dp] kv i(2) by simp
    from kv pstr have "py_truthy v" by fastforce
    then have "i \<in> set P" using i(1) g by (simp add: P_def truthy_def)
    then show "x \<in> set pe" unfolding x i(2) pe_def using g by auto
  qed
  have palmem: "(''palette'', JObj palette) \<in> set theme_data"
    using pal by (rule map_of_SomeD)
  have palonly: "x = JObj palette" if "(''palette'', x) \<in> set theme_data" for x
    using that dk pal by simp
  have sdp: "set (document_pairs theme_data) =
               (\<lambda>kv. ([''palette'', fst kv], snd kv)) ` set palette \<union> set se"
  proof (rule set_eqI, rule iffI)
    fix x assume "x \<in> set (document_pairs theme_data)"
    then have "\<exists>kv\<in>set theme_data. x \<in> set (if fst kv = ''palette''
         then (case snd kv of
                 JObj palette \<Rightarrow> map (\<lambda>ic. ([''palette'', fst ic], snd ic)) palette
               | _ \<Rightarrow> [([''palette''], snd kv)])
         else [([fst kv], snd kv)])"
      unfolding document_pairs_def in_set_concat_map .
    then obtain kv where kv: "kv \<in> set theme_data"
      and x: "x \<in> set (if fst kv = ''palette''
         then (case snd kv of
                 JObj palette \<Rightarrow> map (\<lambda>ic. ([''palette'', fst ic], snd ic)) palette
               | _ \<Rightarrow> [([''palette''], snd kv)])
         else [([fst kv], snd kv)])"
      by blast
    show "x \<in> (\<lambda>kv. ([''palette'', fst kv], snd kv)) ` set palette \<union> set se"
    proof (cases "fst kv = ''palette''")
      case True
      then have "kv = (''palette'', snd kv)" by (metis prod.collapse)
      with kv have "snd kv = JObj palette" using palonly by metis
      with x True show ?thesis by auto
    next
      case False
      with x kv show ?thesis by (auto simp add: se_def sc_def)
    qed
  next
    fix x assume "x \<in> (\<lambda>kv. ([''palette'', fst kv], snd kv)) ` set palette \<union> set se"
    then show "x \<in> set (document_pairs theme_data)"
    proof
      assume "x \<in> (\<lambda>kv. ([''palette'', fst kv], snd kv)) ` set palette"
      then show ?thesis
        unfolding document_pairs_def using palmem by (force simp add: image_iff)
    next
      assume "x \<in> set se"
      then show ?thesis
        unfolding document_pairs_def se_def sc_def by force
    qed
  qed
  have "set (read_pairs (py_join [CHR 0x0A] (pl @ sl) @ [CHR 0x0A])) = set (document_pairs theme_data)"
    by (simp only: rd sdp spe set_append)
  with conv show ?thesis by blast
qed

text \<open>
  Witness for C6: \<open>equals_key_doc\<close> satisfies the conditions, with a key that contains
  \<^verbatim>\<open>=\<close>, and its pairs are read back.
\<close>

theorem roundtrip_pairs_witness:
  "distinct (map fst equals_key_doc) \<and>
   ([''a=b''], JStr ''c'') \<in> set (document_pairs equals_key_doc) \<and>
   ([''palette'', ''10''], JStr ''#55ff55'') \<in> set (document_pairs equals_key_doc) \<and>
   (\<exists>ws text. convert_theme_to_conf equals_key_doc = Inr (ws, text) \<and>
      set (read_pairs text) = set (document_pairs equals_key_doc))"
proof -
  have h1: "map_of equals_key_doc ''palette'' = Some (JObj full_palette)"
    by (simp add: equals_key_doc_def)
  have h2: "distinct (map fst equals_key_doc)" by (simp add: equals_key_doc_def)
  have h3: "distinct (map fst full_palette)" by code_simp
  have h4: "\<forall>kv\<in>set full_palette. fst kv \<in> set (map str_nat [0..<16])"
    by code_simp
  have h5: "\<forall>kv\<in>set full_palette. \<exists>c. snd kv = JStr c \<and> c \<noteq> [] \<and> CHR 0x0A \<notin> set c"
    by (simp add: full_palette_def)
  have k: "\<not> py_contains '' = '' (''a=b'' @ '' '')" by code_simp
  have h6: "\<forall>kv\<in>set equals_key_doc. fst kv \<noteq> ''palette'' \<longrightarrow>
                 \<not> py_contains '' = '' (fst kv @ '' '') \<and> CHR 0x0A \<notin> set (fst kv) \<and>
                 (\<exists>s. snd kv = JStr s \<and> CHR 0x0A \<notin> set s)"
    using k by (simp add: equals_key_doc_def)
  have m1: "([''a=b''], JStr ''c'') \<in> set (document_pairs equals_key_doc)" by code_simp
  have m2: "([''palette'', ''10''], JStr ''#55ff55'') \<in> set (document_pairs equals_key_doc)"
    by code_simp
  show ?thesis
    using roundtrip_pairs [OF h1 h2 h3 h4 h5 h6] h2 m1 m2 by blast
qed

text \<open>
  Counterexample to C6 as stated: no value of \<open>ambiguous_key_doc\<close> has a newline, but its
  key \<^verbatim>\<open>a = b\<close> holds the separator. The pair of that key and \<^verbatim>\<open>c\<close> is not among the pairs
  read back. No reader could do better: the document in which the key \<^verbatim>\<open>a\<close> has the
  value \<^verbatim>\<open>b = c\<close> is converted to the same text and does not have that pair. In the same
  way a value \<^verbatim>\<open>null\<close> and the string \<^verbatim>\<open>None\<close> are converted to the same text, and an empty
  colour is left out of the text.
\<close>

theorem roundtrip_ambiguous_key_counterexample:
  "list_all (\<lambda>kv. CHR 0x0A \<notin> set (py_str (snd kv))) (full_palette @ [(''a = b'', JStr ''c'')]) \<and>
   convert_theme_to_conf ambiguous_key_doc =
     Inr ([], ''palette = 0=#111111\<newline>palette = 1=#ff0000\<newline>palette = 2=#00ff00\<newline>palette = 3=#ffff00\<newline>palette = 4=#0000ff\<newline>palette = 5=#ff00ff\<newline>palette = 6=#00ffff\<newline>palette = 7=#eeeeee\<newline>palette = 8=#555555\<newline>palette = 9=#ff5555\<newline>palette = 10=#55ff55\<newline>palette = 11=#ffff55\<newline>palette = 12=#5555ff\<newline>palette = 13=#ff55ff\<newline>palette = 14=#55ffff\<newline>palette = 15=#ffffff\<newline>a = b = c\<newline>'') \<and>
   ([''a = b''], JStr ''c'') \<in> set (document_pairs ambiguous_key_doc) \<and>
   ([''a = b''], JStr ''c'') \<notin> set (read_pairs ''palette = 0=#111111\<newline>palette = 1=#ff0000\<newline>palette = 2=#00ff00\<newline>palette = 3=#ffff00\<newline>palette = 4=#0000ff\<newline>palette = 5=#ff00ff\<newline>palette = 6=#00ffff\<newline>palette = 7=#eeeeee\<newline>palette = 8=#555555\<newline>palette = 9=#ff5555\<newline>palette = 10=#55ff55\<newline>palette = 11=#ffff55\<newline>palette = 12=#5555ff\<newline>palette = 13=#ff55ff\<newline>palette = 14=#55ffff\<newline>palette = 15=#ffffff\<newline>a = b = c\<newline>'') \<and>
   convert_theme_to_conf ambiguous_value_doc = convert_theme_to_conf ambiguous_key_doc \<and>
   ([''a = b''], JStr ''c'') \<notin> set (document_pairs ambiguous_value_doc) \<and>
   convert_theme_to_conf null_value_doc = convert_theme_to_conf none_text_doc \<and>
   ([''n''], JNull) \<in> set (document_pairs null_value_doc) \<and>
   ([''n''], JNull) \<notin> set (document_pairs none_text_doc) \<and>
   convert_theme_to_conf empty_colour_doc =
     Inr (map palette_warning (0 # [2..<16]),
          ''palette = 1=#ff0000\<newline>background = #111111\<newline>'') \<and>
   ([''palette'', ''0''], JStr []) \<in> set (document_pairs empty_colour_doc) \<and>
   ([''palette'', ''0''], JStr []) \<notin>
     set (read_pairs ''palette = 1=#ff0000\<newline>background = #111111\<newline>'')"
  by code_simp

end
